theory Spec2Isabelle
  imports Main
begin

section \<open>Multi-workspace routing of the Linear MCP server (\<open>src/index.ts\<close>)\<close>

text \<open>
  The development embeds the workspace configuration, the client pool, the
  selector lookup, the client resolution and the tool-call handler of
  \<open>src/index.ts\<close>, whose configuration format is the one that \<open>.env.example\<close>
  documents.  Strings are \<open>string\<close>; the JavaScript string functions are embedded
  for ASCII text (a code unit above 127 is left unchanged by \<open>toLowerCase\<close> and is
  never white space for \<open>trim\<close>).  Argument values are strings.
\<close>

subsection \<open>JavaScript string helpers\<close>

text \<open>Truthiness of a string value: \<open>undefined\<close> and the empty string are falsy.\<close>

definition truthy :: "string option \<Rightarrow> bool" where
  "truthy v = (case v of None \<Rightarrow> False | Some s \<Rightarrow> s \<noteq> [])"

text \<open>\<open>a || b\<close> on two possibly undefined strings.\<close>

definition js_or :: "string option \<Rightarrow> string option \<Rightarrow> string option" where
  "js_or a b = (if truthy a then a else b)"

definition lowerChar :: "char \<Rightarrow> char" where
  "lowerChar c =
     (case map_of (zip ''ABCDEFGHIJKLMNOPQRSTUVWXYZ'' ''abcdefghijklmnopqrstuvwxyz'') c of
        Some d \<Rightarrow> d
      | None \<Rightarrow> c)"

definition toLowerCase :: "string \<Rightarrow> string" where
  "toLowerCase s = map lowerChar s"

definition isWhiteSpace :: "char \<Rightarrow> bool" where
  "isWhiteSpace c =
     (c = CHR '' '' \<or> c = CHR 0x09 \<or> c = CHR 0x0A \<or> c = CHR 0x0B \<or> c = CHR 0x0C \<or> c = CHR 0x0D)"

definition trim :: "string \<Rightarrow> string" where
  "trim s = rev (dropWhile isWhiteSpace (rev (dropWhile isWhiteSpace s)))"

text \<open>\<open>s.split(sep)\<close> for a one-character separator; \<open>"".split(",")\<close> is \<open>[""]\<close>.\<close>

fun split :: "char \<Rightarrow> string \<Rightarrow> string list" where
  "split sep [] = [[]]"
| "split sep (c # cs) =
     (if c = sep then [] # split sep cs
      else (case split sep cs of
              [] \<Rightarrow> [[c]]
            | x # xs \<Rightarrow> (c # x) # xs))"

text \<open>\<open>xs.join(sep)\<close>.\<close>

fun join :: "string \<Rightarrow> string list \<Rightarrow> string" where
  "join sep [] = []"
| "join sep [x] = x"
| "join sep (x # y # ys) = x @ sep @ join sep (y # ys)"

subsection \<open>Configuration and client pool\<close>

text \<open>One entry of \<open>workspacesConfig.workspaces\<close>; \<open>aliases\<close> is optional.\<close>

record workspace =
  ws_id :: string
  ws_name :: string
  ws_email :: string
  ws_apiKey :: string
  ws_aliases :: "string option"

record wsConfig =
  workspaces :: "workspace list"
  activeWorkspaceId :: "string option"

text \<open>A client of the upstream API is determined by its credential.\<close>

datatype LinearClient = LinearClient (client_apiKey: string)

type_synonym clientMap = "string \<rightharpoonup> LinearClient"

subsection \<open>\<open>findWorkspace\<close>\<close>

text \<open>The predicate of the alias tier (lines 168--172).\<close>

definition aliasHit :: "string \<Rightarrow> workspace \<Rightarrow> bool" where
  "aliasHit lowercaseSearch ws =
     (case ws_aliases ws of
        None \<Rightarrow> False
      | Some al \<Rightarrow>
          if al = [] then False
          else lowercaseSearch \<in> set (map (\<lambda>a. toLowerCase (trim a)) (split CHR '','' al)))"

definition findWorkspace :: "wsConfig option \<Rightarrow> string \<Rightarrow> workspace option" where
  "findWorkspace cfg nameOrIdOrAlias =
     (case cfg of
        None \<Rightarrow> None
      | Some c \<Rightarrow>
          (let lowercaseSearch = toLowerCase nameOrIdOrAlias in
           case find (\<lambda>ws. ws_id ws = nameOrIdOrAlias) (workspaces c) of
             Some workspaceById \<Rightarrow> Some workspaceById
           | None \<Rightarrow>
               (case find (\<lambda>ws. toLowerCase (ws_name ws) = lowercaseSearch) (workspaces c) of
                  Some workspaceByName \<Rightarrow> Some workspaceByName
                | None \<Rightarrow> find (aliasHit lowercaseSearch) (workspaces c))))"

subsection \<open>Start-up (lines 22--122 and 145)\<close>

record env =
  LINEAR_API_KEY :: "string option"
  LINEARAPIKEY :: "string option"

datatype errorCode = MethodNotFound

datatype exn = Error string | TypeError string | McpError errorCode string

datatype startupError =
    ExitMissingKey \<comment> \<open>\<open>process.exit(1)\<close> at line 89\<close>
  | ClientRejected \<comment> \<open>\<open>new LinearClient\<close> throws while the module is loaded (lines 98 and 105)\<close>
  | Uncaught exn \<comment> \<open>an exception of \<open>getLinearClient\<close> while the module is loaded (line 145)\<close>

record serverState =
  workspacesConfig :: "wsConfig option"
  linearClients :: clientMap

text \<open>
  Lines 33--50.  \<open>decodeParse\<close> stands for \<open>decodeURIComponent\<close>, \<open>JSON.parse\<close> and the
  shape test of line 42 together: it is \<open>None\<close> when decoding or parsing throws or the
  value is not an object with an array field \<open>workspaces\<close>.
\<close>

definition parseEnv :: "(string \<Rightarrow> wsConfig option) \<Rightarrow> env \<Rightarrow> wsConfig option" where
  "parseEnv decodeParse e =
     (case js_or (LINEAR_API_KEY e) (LINEARAPIKEY e) of
        None \<Rightarrow> None
      | Some apiKeyValue \<Rightarrow> if apiKeyValue = [] then None else decodeParse apiKeyValue)"

definition defaultWorkspaceId :: string where
  "defaultWorkspaceId = ''default''"

definition defaultConfig :: "string \<Rightarrow> wsConfig" where
  "defaultConfig API_KEY =
     \<lparr>workspaces =
        [\<lparr>ws_id = defaultWorkspaceId, ws_name = ''Default Workspace'',
          ws_email = ''default@linear-mcp.local'', ws_apiKey = API_KEY, ws_aliases = None\<rparr>],
      activeWorkspaceId = Some defaultWorkspaceId\<rparr>"

text \<open>
  \<open>new LinearClient({ apiKey })\<close>.  The constructor belongs to the SDK, which is not
  among the sources of the repository: it throws when the \<open>apiKey\<close> is empty or absent
  (no access token is ever passed).  \<open>None\<close> is that exception; an absent \<open>apiKey\<close> of
  a workspace entry is the empty string of \<open>ws_apiKey\<close>.
\<close>

definition newLinearClient :: "string \<Rightarrow> LinearClient option" where
  "newLinearClient apiKey = (if apiKey = [] then None else Some (LinearClient apiKey))"

text \<open>
  The loop of lines 97--101, started with the map \<open>m\<close>: \<open>Map.set\<close> replaces an earlier
  entry under the same key; the loop is left by the exception of the constructor.
\<close>

fun buildClients :: "workspace list \<Rightarrow> clientMap \<Rightarrow> clientMap option" where
  "buildClients [] m = Some m"
| "buildClients (workspace # rest) m =
     (case newLinearClient (ws_apiKey workspace) of
        None \<Rightarrow> None
      | Some client \<Rightarrow> buildClients rest (m(ws_id workspace \<mapsto> client)))"

text \<open>Lines 92--122; \<open>None\<close> when a constructor call throws.\<close>

definition initClients :: "wsConfig option \<Rightarrow> string option \<Rightarrow> serverState option" where
  "initClients cfg API_KEY =
     (case (case cfg of None \<Rightarrow> None | Some c \<Rightarrow> if workspaces c \<noteq> [] then Some c else None) of
        Some c \<Rightarrow>
          (case buildClients (workspaces c) Map.empty of
             None \<Rightarrow> None
           | Some clients \<Rightarrow> Some \<lparr>workspacesConfig = cfg, linearClients = clients\<rparr>)
      | None \<Rightarrow>
          (case API_KEY of
             None \<Rightarrow> Some \<lparr>workspacesConfig = cfg, linearClients = Map.empty\<rparr>
           | Some k \<Rightarrow>
               if k = [] then Some \<lparr>workspacesConfig = cfg, linearClients = Map.empty\<rparr>
               else (case newLinearClient k of
                       None \<Rightarrow> None
                     | Some client \<Rightarrow>
                         Some \<lparr>workspacesConfig =
                                 (case cfg of None \<Rightarrow> Some (defaultConfig k) | Some c \<Rightarrow> cfg),
                               linearClients = [defaultWorkspaceId \<mapsto> client]\<rparr>)))"

subsection \<open>\<open>getLinearClient\<close> (lines 124--142)\<close>

text \<open>\<open>id && linearClients.has(id)\<close>, then \<open>linearClients.get(id)\<close>.\<close>

definition clientFor :: "clientMap \<Rightarrow> string option \<Rightarrow> LinearClient option" where
  "clientFor clients i =
     (case i of None \<Rightarrow> None | Some k \<Rightarrow> if k = [] then None else clients k)"

text \<open>
  The result \<open>Inr None\<close> is the value \<open>undefined\<close>, which line 138 returns when the pool
  has no entry for the first workspace.
\<close>

definition getLinearClient :: "serverState \<Rightarrow> string option \<Rightarrow> exn + LinearClient option" where
  "getLinearClient st workspaceId =
     (case clientFor (linearClients st) workspaceId of
        Some c \<Rightarrow> Inr (Some c)
      | None \<Rightarrow>
          (case workspacesConfig st of
             None \<Rightarrow> Inl (Error ''No Linear client available. Please check your configuration.'')
           | Some cfg \<Rightarrow>
               (case clientFor (linearClients st) (activeWorkspaceId cfg) of
                  Some c \<Rightarrow> Inr (Some c)
                | None \<Rightarrow>
                    (case workspaces cfg of
                       [] \<Rightarrow> Inl (Error ''No Linear client available. Please check your configuration.'')
                     | w # _ \<Rightarrow> Inr (linearClients st (ws_id w))))))"

definition startup :: "(string \<Rightarrow> wsConfig option) \<Rightarrow> env \<Rightarrow> startupError + serverState" where
  "startup decodeParse e =
     (let cfg = parseEnv decodeParse e;
          API_KEY = js_or (LINEAR_API_KEY e) (LINEARAPIKEY e)
      in if cfg = None \<and> \<not> truthy API_KEY then Inl ExitMissingKey
         else (case initClients cfg API_KEY of
                 None \<Rightarrow> Inl ClientRejected
               | Some st \<Rightarrow>
                   (case getLinearClient st None of
                      Inl x \<Rightarrow> Inl (Uncaught x)
                    | Inr _ \<Rightarrow> Inr st)))"

subsection \<open>Tool results\<close>

datatype json =
    JNull
  | JString string
  | JNumber int
  | JArray "json list"
  | JObject "(string \<times> json) list"

text \<open>
  A content item of type \<open>text\<close>.  \<open>Stringify j n\<close> is the text
  \<open>JSON.stringify(j, null, n)\<close> (\<open>n = 0\<close> when the call gives no indentation).
\<close>

datatype content = Text string | Stringify json nat

record toolResult =
  content :: "content list"
  isError :: "bool option"

text \<open>What the request handler hands to the transport: a result, or a raised fault.\<close>

datatype outcome = Returned toolResult | Raised exn

type_synonym args = "string \<rightharpoonup> string"

record request =
  req_name :: string
  req_arguments :: "args option"

subsection \<open>The upstream API\<close>

text \<open>A node of a workflow-state page; \<open>wf_other\<close> holds the fields the handler drops.\<close>

record workflowState =
  wf_id :: string
  wf_name :: string
  wf_description :: "string option"
  wf_position :: int
  wf_type :: string

record workflowNode = workflowState +
  wf_other :: string

record page =
  nodes :: "workflowNode list"
  hasNextPage :: bool
  endCursor :: "string option"

text \<open>
  The collaborators outside the repository.  \<open>ext_workflowStates c teamId after first\<close>
  is one call of \<open>client.workflowStates\<close>; \<open>ext_call tool c args\<close> is the upstream calls
  and the field mapping of the tool \<open>tool\<close> after its argument checks, which throw or
  produce the text of the result; \<open>ext_mcpMessage\<close> is the \<open>message\<close> the SDK gives an
  \<open>McpError\<close>.
\<close>

record ext =
  ext_workflowStates :: "LinearClient \<Rightarrow> string \<Rightarrow> string option \<Rightarrow> nat \<Rightarrow> exn + page"
  ext_call :: "string \<Rightarrow> LinearClient \<Rightarrow> args \<Rightarrow> exn + string"
  ext_mcpMessage :: "errorCode \<Rightarrow> string \<Rightarrow> string"

definition message :: "ext \<Rightarrow> exn \<Rightarrow> string" where
  "message x e =
     (case e of
        Error m \<Rightarrow> m
      | TypeError m \<Rightarrow> m
      | McpError c m \<Rightarrow> ext_mcpMessage x c m)"

text \<open>Reading a property of \<open>undefined\<close>.\<close>

definition cannotRead :: "string \<Rightarrow> exn" where
  "cannotRead prop = TypeError (''Cannot read properties of undefined (reading '' @ [CHR 0x27] @ prop @ [CHR 0x27] @ '')'')"

subsection \<open>\<open>list_workspaces\<close> (lines 487--563)\<close>

definition wsView :: "workspace \<Rightarrow> json" where
  "wsView ws =
     JObject [(''id'', JString (ws_id ws)), (''name'', JString (ws_name ws)),
              (''email'', JString (ws_email ws))]"

definition textResult :: "content \<Rightarrow> toolResult" where
  "textResult c = \<lparr>content = [c], isError = None\<rparr>"

definition list_workspaces :: "wsConfig option \<Rightarrow> args option \<Rightarrow> toolResult \<times> wsConfig option" where
  "list_workspaces cfg arguments =
     (case (case cfg of None \<Rightarrow> None | Some c \<Rightarrow> if workspaces c = [] then None else Some c) of
        None \<Rightarrow>
          (textResult (Text ''No workspaces are configured. Please set up workspaces in your configuration.''),
           cfg)
      | Some c \<Rightarrow>
          (case (case arguments of
                   None \<Rightarrow> None
                 | Some a \<Rightarrow> (case a ''workspace'' of None \<Rightarrow> None | Some w \<Rightarrow> if w = [] then None else Some w)) of
             Some sel \<Rightarrow>
               (case findWorkspace cfg sel of
                  Some ws \<Rightarrow>
                    (textResult
                       (Stringify
                          (JObject [(''workspaces'', JArray (map wsView (workspaces c))),
                                    (''activeWorkspace'', wsView ws)]) 0),
                     Some (c\<lparr>activeWorkspaceId := Some (ws_id ws)\<rparr>))
                | None \<Rightarrow>
                    (textResult
                       (Text (''Workspace '' @ [CHR 0x27] @ sel @ [CHR 0x27] @ '' not found. Available workspaces: ''
                              @ join '', '' (map ws_name (workspaces c)))),
                     cfg))
           | None \<Rightarrow>
               (textResult
                  (Stringify
                     (JObject
                        ((''workspaces'', JArray (map wsView (workspaces c))) #
                         (case find (\<lambda>ws. Some (ws_id ws) = activeWorkspaceId c) (workspaces c) of
                            None \<Rightarrow> []
                          | Some activeWorkspace \<Rightarrow> [(''activeWorkspace'', wsView activeWorkspace)]))) 0),
                cfg)))"

subsection \<open>\<open>get_issue_status\<close>: the page loop (lines 767--788)\<close>

definition wfView :: "workflowNode \<Rightarrow> workflowState" where
  "wfView state =
     \<lparr>wf_id = wf_id state, wf_name = wf_name state, wf_description = wf_description state,
      wf_position = wf_position state, wf_type = wf_type state\<rparr>"

text \<open>
  The \<open>while (hasNextPage)\<close> loop; \<open>fetch after\<close> is the call of \<open>workflowStates\<close> with
  the cursor \<open>after\<close>.  The value \<open>None\<close> means that the loop never ends.
\<close>

partial_function (option) pageLoop ::
  "(string option \<Rightarrow> exn + page) \<Rightarrow> workflowState list \<Rightarrow> bool \<Rightarrow> string option
     \<Rightarrow> (exn + workflowState list) option" where
  "pageLoop fetch allStates hasNext cursor =
     (if hasNext then
        (case fetch cursor of
           Inl x \<Rightarrow> Some (Inl x)
         | Inr states \<Rightarrow>
             pageLoop fetch (allStates @ map wfView (nodes states)) (hasNextPage states) (endCursor states))
      else Some (Inr allStates))"

declare pageLoop.simps [code]

subsection \<open>The handlers that call upstream (lines 564--999)\<close>

text \<open>A method call on the resolved client; on \<open>undefined\<close> it is a \<open>TypeError\<close>.\<close>

definition onClient :: "LinearClient option \<Rightarrow> string \<Rightarrow> (LinearClient \<Rightarrow> exn + 'a) \<Rightarrow> exn + 'a" where
  "onClient client method f =
     (case client of None \<Rightarrow> Inl (cannotRead method) | Some c \<Rightarrow> f c)"

definition okText :: "string \<Rightarrow> toolResult" where
  "okText t = textResult (Text t)"

text \<open>
  The handlers of \<open>list_issues\<close>, \<open>list_teams\<close> and \<open>list_projects\<close>: the client is
  resolved from \<open>args.workspaceId\<close>, then upstream is called.
\<close>

definition plainHandler :: "ext \<Rightarrow> serverState \<Rightarrow> string \<Rightarrow> string \<Rightarrow> args option \<Rightarrow> exn + toolResult" where
  "plainHandler x st tool method arguments =
     (case arguments of
        None \<Rightarrow> Inl (cannotRead ''workspaceId'')
      | Some a \<Rightarrow>
          (case getLinearClient st (a ''workspaceId'') of
             Inl e \<Rightarrow> Inl e
           | Inr client \<Rightarrow> map_sum id okText (onClient client method (\<lambda>c. ext_call x tool c a))))"

text \<open>
  The handlers of \<open>create_issue\<close>, \<open>update_issue\<close> and \<open>get_issue\<close>: the client is
  resolved first, then the required arguments are checked.
\<close>

definition checkedHandler ::
  "ext \<Rightarrow> serverState \<Rightarrow> string \<Rightarrow> string \<Rightarrow> string list \<Rightarrow> string \<Rightarrow> args option \<Rightarrow> exn + toolResult" where
  "checkedHandler x st tool method required complaint arguments =
     (case arguments of
        None \<Rightarrow> Inl (cannotRead ''workspaceId'')
      | Some a \<Rightarrow>
          (case getLinearClient st (a ''workspaceId'') of
             Inl e \<Rightarrow> Inl e
           | Inr client \<Rightarrow>
               if list_ex (\<lambda>k. \<not> truthy (a k)) required then Inl (Error complaint)
               else map_sum id okText (onClient client method (\<lambda>c. ext_call x tool c a))))"

text \<open>\<open>search_issues\<close> checks \<open>args?.query\<close> before it resolves the client.\<close>

definition search_issues :: "ext \<Rightarrow> serverState \<Rightarrow> args option \<Rightarrow> exn + toolResult" where
  "search_issues x st arguments =
     (case arguments of
        None \<Rightarrow> Inl (Error ''Search query is required'')
      | Some a \<Rightarrow>
          if \<not> truthy (a ''query'') then Inl (Error ''Search query is required'')
          else (case getLinearClient st (a ''workspaceId'') of
                  Inl e \<Rightarrow> Inl e
                | Inr client \<Rightarrow>
                    map_sum id okText (onClient client ''searchIssues'' (\<lambda>c. ext_call x ''search_issues'' c a))))"

text \<open>
  What \<open>JSON.stringify\<close> prints of an element of \<open>allStates\<close>: a property whose value is
  \<open>undefined\<close> (a state without description) is left out.
\<close>

definition wfJson :: "workflowState \<Rightarrow> json" where
  "wfJson s =
     JObject ([(''id'', JString (wf_id s)), (''name'', JString (wf_name s))]
              @ (case wf_description s of None \<Rightarrow> [] | Some d \<Rightarrow> [(''description'', JString d)])
              @ [(''position'', JNumber (wf_position s)), (''type'', JString (wf_type s))])"

text \<open>\<open>get_issue_status\<close> (lines 759--798); \<open>None\<close> when the page loop never ends.\<close>

definition get_issue_status :: "ext \<Rightarrow> serverState \<Rightarrow> args option \<Rightarrow> (exn + toolResult) option" where
  "get_issue_status x st arguments =
     (case arguments of
        None \<Rightarrow> Some (Inl (cannotRead ''workspaceId''))
      | Some a \<Rightarrow>
          (case getLinearClient st (a ''workspaceId'') of
             Inl e \<Rightarrow> Some (Inl e)
           | Inr client \<Rightarrow>
               (case (case a ''teamId'' of None \<Rightarrow> None | Some t \<Rightarrow> if t = [] then None else Some t) of
                  None \<Rightarrow> Some (Inl (Error ''teamId is required''))
                | Some teamId \<Rightarrow>
                    (case client of
                       None \<Rightarrow> Some (Inl (cannotRead ''workflowStates''))
                     | Some c \<Rightarrow>
                         map_option
                           (map_sum id (\<lambda>allStates. textResult (Stringify (JArray (map wfJson allStates)) 2)))
                           (pageLoop (\<lambda>after. ext_workflowStates x c teamId after 100) [] True None)))))"

subsection \<open>The \<open>CallToolRequestSchema\<close> handler (lines 484--1018)\<close>

text \<open>The \<open>switch\<close> inside the \<open>try\<close>: a result, or the exception that leaves the block.\<close>

definition dispatch :: "ext \<Rightarrow> serverState \<Rightarrow> request \<Rightarrow> ((exn + toolResult) \<times> serverState) option" where
  "dispatch x st r =
     (let n = req_name r; a = req_arguments r in
      if n = ''list_workspaces'' then
        (case list_workspaces (workspacesConfig st) a of
           (res, cfg) \<Rightarrow> Some (Inr res, st\<lparr>workspacesConfig := cfg\<rparr>))
      else if n = ''create_issue'' then
        Some (checkedHandler x st n ''createIssue'' [''title'', ''teamId''] ''Title and teamId are required'' a, st)
      else if n = ''list_issues'' then Some (plainHandler x st n ''issues'' a, st)
      else if n = ''update_issue'' then
        Some (checkedHandler x st n ''issue'' [''issueId''] ''Issue ID is required'' a, st)
      else if n = ''list_teams'' then Some (plainHandler x st n ''teams'' a, st)
      else if n = ''list_projects'' then Some (plainHandler x st n ''projects'' a, st)
      else if n = ''search_issues'' then Some (search_issues x st a, st)
      else if n = ''get_issue_status'' then map_option (\<lambda>res. (res, st)) (get_issue_status x st a)
      else if n = ''get_issue'' then
        Some (checkedHandler x st n ''issue'' [''issueId''] ''Issue ID is required'' a, st)
      else Some (Inl (McpError MethodNotFound (''Method '' @ n @ '' not found'')), st))"

text \<open>The \<open>catch\<close> of lines 1007--1017 turns every exception into a result.\<close>

definition callTool :: "ext \<Rightarrow> serverState \<Rightarrow> request \<Rightarrow> (outcome \<times> serverState) option" where
  "callTool x st r =
     map_option
       (\<lambda>(res, st').
          (case res of
             Inl error \<Rightarrow> Returned (textResult (Text (''Error: '' @ message x error)))
           | Inr result \<Rightarrow> Returned result,
           st'))
       (dispatch x st r)"

text \<open>A sequence of calls, one after the other; \<open>None\<close> when one of them never returns.\<close>

fun run :: "ext \<Rightarrow> serverState \<Rightarrow> request list \<Rightarrow> serverState option" where
  "run x st [] = Some st"
| "run x st (r # rs) =
     (case callTool x st r of
        None \<Rightarrow> None
      | Some (_, st') \<Rightarrow> run x st' rs)"

subsection \<open>Notions used to state the properties\<close>

text \<open>
  The three ways a selector can match a workspace record, as the specification words
  them: exactly on the id, on the name without regard to case, and on an alias entry
  (comma-delimited, trimmed) without regard to case.
\<close>

definition nameMatch :: "string \<Rightarrow> workspace \<Rightarrow> bool" where
  "nameMatch sel w = (toLowerCase (ws_name w) = toLowerCase sel)"

definition aliasEntries :: "workspace \<Rightarrow> string list" where
  "aliasEntries w =
     (case ws_aliases w of
        None \<Rightarrow> []
      | Some al \<Rightarrow> if al = [] then [] else map trim (split CHR '','' al))"

definition aliasMatch :: "string \<Rightarrow> workspace \<Rightarrow> bool" where
  "aliasMatch sel w = list_ex (\<lambda>a. toLowerCase a = toLowerCase sel) (aliasEntries w)"

text \<open>The active pointer does not dangle: if it is set, a record has that id.\<close>

definition configActiveOk :: "wsConfig \<Rightarrow> bool" where
  "configActiveOk cfg =
     (case activeWorkspaceId cfg of
        None \<Rightarrow> True
      | Some a \<Rightarrow> list_ex (\<lambda>w. ws_id w = a) (workspaces cfg))"

definition activeOk :: "serverState \<Rightarrow> bool" where
  "activeOk st = (case workspacesConfig st of None \<Rightarrow> True | Some cfg \<Rightarrow> configActiveOk cfg)"

text \<open>The pool that the loop of lines 97--101 builds when no constructor call throws.\<close>

definition poolOf :: "workspace list \<Rightarrow> clientMap" where
  "poolOf wss = fold (\<lambda>ws m. m(ws_id ws \<mapsto> LinearClient (ws_apiKey ws))) wss Map.empty"

text \<open>
  What start-up establishes and every call keeps: a configuration exists, and the pool
  is the one built from its workspaces (or, for an empty workspace list, the single
  default client, which is then the active one).
\<close>

definition wellFormed :: "serverState \<Rightarrow> bool" where
  "wellFormed st =
     (case workspacesConfig st of
        None \<Rightarrow> False
      | Some cfg \<Rightarrow>
          if workspaces cfg = []
          then activeWorkspaceId cfg = Some defaultWorkspaceId
               \<and> (\<exists>k. linearClients st = [defaultWorkspaceId \<mapsto> LinearClient k])
          else linearClients st = poolOf (workspaces cfg))"

text \<open>
  Upstream, asked first without a cursor and then with the cursor of each page, answers
  with the pages \<open>ps\<close>, of which the last is the first to report no further page.
\<close>

fun follows :: "(string option \<Rightarrow> exn + page) \<Rightarrow> string option \<Rightarrow> page list \<Rightarrow> bool" where
  "follows fetch c [] = False"
| "follows fetch c [p] = (fetch c = Inr p \<and> \<not> hasNextPage p)"
| "follows fetch c (p # q # ps) =
     (fetch c = Inr p \<and> hasNextPage p \<and> follows fetch (endCursor p) (q # ps))"

text \<open>A configuration with every credential blanked.\<close>

definition redact :: "wsConfig \<Rightarrow> wsConfig" where
  "redact cfg = cfg\<lparr>workspaces := map (\<lambda>w. w\<lparr>ws_apiKey := []\<rparr>) (workspaces cfg)\<rparr>"

definition toolNames :: "string list" where
  "toolNames =
     [''list_workspaces'', ''create_issue'', ''list_issues'', ''update_issue'', ''list_teams'',
      ''list_projects'', ''search_issues'', ''get_issue_status'', ''get_issue'']"

subsection \<open>Concrete configurations\<close>

text \<open>An environment whose \<open>LINEAR_API_KEY\<close> is \<open>raw\<close>, and a parser that reads \<open>raw\<close> as \<open>cfg\<close>.\<close>

definition envOf :: "string \<Rightarrow> env" where
  "envOf raw = \<lparr>LINEAR_API_KEY = Some raw, LINEARAPIKEY = None\<rparr>"

definition parseAs :: "string \<Rightarrow> wsConfig \<Rightarrow> string \<Rightarrow> wsConfig option" where
  "parseAs raw cfg s = (if s = raw then Some cfg else None)"

definition started :: "wsConfig \<Rightarrow> serverState" where
  "started cfg = \<lparr>workspacesConfig = Some cfg, linearClients = poolOf (workspaces cfg)\<rparr>"

text \<open>The configuration of \<open>.env.example\<close>.\<close>

definition wsWork :: workspace where
  "wsWork = \<lparr>ws_id = ''work-project'', ws_name = ''Work Project'', ws_email = ''work@example.com'',
             ws_apiKey = ''your_work_api_key_here'', ws_aliases = Some ''work, main''\<rparr>"

definition wsPersonal :: workspace where
  "wsPersonal = \<lparr>ws_id = ''personal-project'', ws_name = ''Personal Project'',
                 ws_email = ''personal@example.com'', ws_apiKey = ''your_personal_api_key_here'',
                 ws_aliases = Some ''personal, side''\<rparr>"

definition envExample :: wsConfig where
  "envExample = \<lparr>workspaces = [wsWork, wsPersonal], activeWorkspaceId = Some ''work-project''\<rparr>"

text \<open>
  The scenario of the specification: workspaces \<open>a\<close> (Alpha) and \<open>b\<close> (Beta), \<open>b\<close>
  active; each is given a credential so that the two clients differ.
\<close>

definition wsAlpha :: workspace where
  "wsAlpha = \<lparr>ws_id = ''a'', ws_name = ''Alpha'', ws_email = [], ws_apiKey = ''key-a'', ws_aliases = None\<rparr>"

definition wsBeta :: workspace where
  "wsBeta = \<lparr>ws_id = ''b'', ws_name = ''Beta'', ws_email = [], ws_apiKey = ''key-b'', ws_aliases = None\<rparr>"

definition cfgAB :: wsConfig where
  "cfgAB = \<lparr>workspaces = [wsAlpha, wsBeta], activeWorkspaceId = Some ''b''\<rparr>"

definition rawAB :: string where
  \<open>rawAB = ''{"workspaces":[{"id":"a","name":"Alpha","email":"","apiKey":"key-a"},{"id":"b","name":"Beta","email":"","apiKey":"key-b"}],"activeWorkspaceId":"b"}''\<close>

text \<open>The same workspaces with an \<open>activeWorkspaceId\<close> that names none of them.\<close>

definition cfgDangling :: wsConfig where
  "cfgDangling = \<lparr>workspaces = [wsAlpha, wsBeta], activeWorkspaceId = Some ''zzz''\<rparr>"

definition rawDangling :: string where
  \<open>rawDangling = ''{"workspaces":[{"id":"a","name":"Alpha","email":"","apiKey":"key-a"},{"id":"b","name":"Beta","email":"","apiKey":"key-b"}],"activeWorkspaceId":"zzz"}''\<close>

text \<open>Two entries with the id \<open>a\<close>.\<close>

definition dupFirst :: workspace where
  "dupFirst = \<lparr>ws_id = ''a'', ws_name = ''First'', ws_email = ''first@example.com'',
               ws_apiKey = ''key-1'', ws_aliases = None\<rparr>"

definition dupSecond :: workspace where
  "dupSecond = \<lparr>ws_id = ''a'', ws_name = ''Second'', ws_email = ''second@example.com'',
                ws_apiKey = ''key-2'', ws_aliases = None\<rparr>"

definition cfgDup :: wsConfig where
  "cfgDup = \<lparr>workspaces = [dupFirst, dupSecond], activeWorkspaceId = None\<rparr>"

definition rawDup :: string where
  \<open>rawDup = ''{"workspaces":[{"id":"a","name":"First","email":"first@example.com","apiKey":"key-1"},{"id":"a","name":"Second","email":"second@example.com","apiKey":"key-2"}]}''\<close>

text \<open>The same two entries without their \<open>apiKey\<close> fields.\<close>

definition cfgDupNoKey :: wsConfig where
  "cfgDupNoKey =
     \<lparr>workspaces = [dupFirst\<lparr>ws_apiKey := []\<rparr>, dupSecond\<lparr>ws_apiKey := []\<rparr>],
      activeWorkspaceId = None\<rparr>"

definition rawDupNoKey :: string where
  \<open>rawDupNoKey = ''{"workspaces":[{"id":"a","name":"First","email":"first@example.com"},{"id":"a","name":"Second","email":"second@example.com"}]}''\<close>

text \<open>
  An upstream that is down, and one that serves two pages of workflow states; the
  message of an \<open>McpError\<close> carries the prefix that the SDK gives it.
\<close>

definition extDown :: ext where
  "extDown =
     \<lparr>ext_workflowStates = (\<lambda>c teamId after first. Inl (Error ''upstream unavailable'')),
      ext_call = (\<lambda>tool c a. Inl (Error ''upstream unavailable'')),
      ext_mcpMessage = (\<lambda>c m. ''MCP error -32601: '' @ m)\<rparr>"

definition nodeTodo :: workflowNode where
  "nodeTodo = \<lparr>wf_id = ''s1'', wf_name = ''Todo'', wf_description = None, wf_position = 0,
               wf_type = ''unstarted'', wf_other = ''color=#aaa''\<rparr>"

definition nodeDoing :: workflowNode where
  "nodeDoing = \<lparr>wf_id = ''s2'', wf_name = ''In Progress'', wf_description = Some ''being worked on'',
                wf_position = 1, wf_type = ''started'', wf_other = ''color=#bbb''\<rparr>"

definition nodeDone :: workflowNode where
  "nodeDone = \<lparr>wf_id = ''s3'', wf_name = ''Done'', wf_description = None, wf_position = 2,
               wf_type = ''completed'', wf_other = ''color=#ccc''\<rparr>"

definition pageOne :: page where
  "pageOne = \<lparr>nodes = [nodeTodo, nodeDoing], hasNextPage = True, endCursor = Some ''cursor-1''\<rparr>"

definition pageTwo :: page where
  "pageTwo = \<lparr>nodes = [nodeDone], hasNextPage = False, endCursor = None\<rparr>"

definition extTwoPages :: ext where
  "extTwoPages =
     \<lparr>ext_workflowStates =
        (\<lambda>c teamId after first.
           if after = None then Inr pageOne
           else if after = Some ''cursor-1'' then Inr pageTwo
           else Inl (Error ''unknown cursor'')),
      ext_call = (\<lambda>tool c a. Inl (Error ''upstream unavailable'')),
      ext_mcpMessage = (\<lambda>c m. ''MCP error -32601: '' @ m)\<rparr>"

section \<open>Properties\<close>

subsection \<open>Lists and the client pool\<close>

lemma list_ex_find: "list_ex P xs = (find P xs \<noteq> None)"
  by (auto simp: find_None_iff list_ex_iff)

lemma find_app:
  "find P (xs @ ys) = (case find P xs of None \<Rightarrow> find P ys | Some x \<Rightarrow> Some x)"
  by (induction xs) auto

lemma find_distinct_key:
  "w \<in> set wss \<Longrightarrow> distinct (map f wss) \<Longrightarrow> find (\<lambda>v. f v = f w) wss = Some w"
  by (induction wss) auto

lemma fold_set_lookup:
  "fold (\<lambda>ws m. m(ws_id ws \<mapsto> LinearClient (ws_apiKey ws))) wss m k =
     (case find (\<lambda>w. ws_id w = k) (rev wss) of
        None \<Rightarrow> m k
      | Some w \<Rightarrow> Some (LinearClient (ws_apiKey w)))"
  by (induction wss arbitrary: m) (auto simp: find_app split: option.splits)

lemma poolOf_lookup:
  "poolOf wss k = map_option (\<lambda>w. LinearClient (ws_apiKey w)) (find (\<lambda>w. ws_id w = k) (rev wss))"
  by (simp add: poolOf_def fold_set_lookup split: option.splits)

lemma poolOf_None: "\<not> list_ex (\<lambda>w. ws_id w = k) wss \<Longrightarrow> poolOf wss k = None"
  by (simp add: poolOf_lookup find_None_iff list_ex_iff)

lemma poolOf_member: "w \<in> set wss \<Longrightarrow> poolOf wss (ws_id w) \<noteq> None"
  by (auto simp add: poolOf_lookup find_None_iff)

lemma poolOf_single: "poolOf [w] = [ws_id w \<mapsto> LinearClient (ws_apiKey w)]"
  by (simp add: poolOf_def)

lemma buildClients_fold:
  "buildClients wss m =
     (if list_ex (\<lambda>w. ws_apiKey w = []) wss then None
      else Some (fold (\<lambda>ws m. m(ws_id ws \<mapsto> LinearClient (ws_apiKey ws))) wss m))"
  by (induction wss arbitrary: m) (simp_all add: newLinearClient_def)

lemma buildClients_poolOf:
  "\<not> list_ex (\<lambda>w. ws_apiKey w = []) wss \<Longrightarrow> buildClients wss Map.empty = Some (poolOf wss)"
  by (simp add: buildClients_fold poolOf_def)

lemma buildClients_rejected:
  "list_ex (\<lambda>w. ws_apiKey w = []) wss \<Longrightarrow> buildClients wss Map.empty = None"
  by (simp add: buildClients_fold)

subsection \<open>Start-up\<close>

lemma parseEnv_Some_key:
  "parseEnv decodeParse e = Some cfg \<Longrightarrow>
     \<exists>k. js_or (LINEAR_API_KEY e) (LINEARAPIKEY e) = Some k \<and> k \<noteq> [] \<and> decodeParse k = Some cfg"
  by (auto simp: parseEnv_def split: option.splits if_splits)

lemma startup_structured:
  assumes "parseEnv decodeParse e = Some cfg" and "workspaces cfg \<noteq> []"
    and "\<not> list_ex (\<lambda>w. ws_apiKey w = []) (workspaces cfg)"
  shows "startup decodeParse e = Inr (started cfg)"
proof -
  obtain w ws where w: "workspaces cfg = w # ws"
    using assms(2) by (cases "workspaces cfg") auto
  have "poolOf (workspaces cfg) (ws_id w) \<noteq> None"
    using poolOf_member [of w "workspaces cfg"] w by simp
  then obtain c where c: "poolOf (workspaces cfg) (ws_id w) = Some c"
    by auto
  have i: "initClients (Some cfg) (js_or (LINEAR_API_KEY e) (LINEARAPIKEY e)) = Some (started cfg)"
    using assms(2,3) by (simp add: initClients_def buildClients_poolOf started_def)
  have "getLinearClient (started cfg) None \<noteq> Inl x" for x
    using c w by (simp add: getLinearClient_def clientFor_def started_def split: option.splits)
  then show ?thesis
    using assms(1) i by (simp add: startup_def Let_def split: sum.splits)
qed

lemma startup_rejected:
  assumes "parseEnv decodeParse e = Some cfg" and "list_ex (\<lambda>w. ws_apiKey w = []) (workspaces cfg)"
  shows "startup decodeParse e = Inl ClientRejected"
proof -
  from assms(2) have "workspaces cfg \<noteq> []"
    by auto
  then have "initClients (Some cfg) (js_or (LINEAR_API_KEY e) (LINEARAPIKEY e)) = None"
    using assms(2) by (simp add: initClients_def buildClients_rejected)
  then show ?thesis
    using assms(1) by (simp add: startup_def Let_def)
qed

lemma startup_bare:
  assumes "js_or (LINEAR_API_KEY e) (LINEARAPIKEY e) = Some raw" and "raw \<noteq> []" and "decodeParse raw = None"
  shows "startup decodeParse e =
           Inr \<lparr>workspacesConfig = Some (defaultConfig raw),
                linearClients = [defaultWorkspaceId \<mapsto> LinearClient raw]\<rparr>"
  using assms
  by (simp add: startup_def parseEnv_def initClients_def truthy_def getLinearClient_def
      clientFor_def defaultConfig_def defaultWorkspaceId_def Let_def newLinearClient_def)

lemma startup_wellFormed:
  assumes "startup decodeParse e = Inr st"
  shows "wellFormed st"
proof (cases "parseEnv decodeParse e")
  case None
  with assms obtain k where k: "js_or (LINEAR_API_KEY e) (LINEARAPIKEY e) = Some k" "k \<noteq> []"
    by (auto simp: startup_def truthy_def Let_def split: option.splits if_splits)
  with None have "decodeParse k = None"
    by (simp add: parseEnv_def)
  with k assms have "st = \<lparr>workspacesConfig = Some (defaultConfig k),
                linearClients = [defaultWorkspaceId \<mapsto> LinearClient k]\<rparr>"
    by (simp add: startup_bare)
  then show ?thesis
    by (simp add: wellFormed_def defaultConfig_def poolOf_single)
next
  case (Some cfg)
  show ?thesis
  proof (cases "workspaces cfg = []")
    case False
    have "\<not> list_ex (\<lambda>w. ws_apiKey w = []) (workspaces cfg)"
      using startup_rejected [OF Some] assms by auto
    with Some False assms show ?thesis
      by (auto simp: startup_structured wellFormed_def started_def)
  next
    case True
    from Some obtain k where k: "js_or (LINEAR_API_KEY e) (LINEARAPIKEY e) = Some k" "k \<noteq> []"
      using parseEnv_Some_key by blast
    with Some True assms show ?thesis
      by (auto simp: startup_def initClients_def getLinearClient_def clientFor_def wellFormed_def
          defaultWorkspaceId_def Let_def newLinearClient_def split: option.splits if_splits)
  qed
qed

lemma parseEnv_parseAs: "raw \<noteq> [] \<Longrightarrow> parseEnv (parseAs raw cfg) (envOf raw) = Some cfg"
  by (simp add: parseEnv_def parseAs_def envOf_def js_or_def truthy_def)

subsection \<open>Calls and the state\<close>

lemma findWorkspace_member:
  "findWorkspace cfg sel = Some w \<Longrightarrow> \<exists>c. cfg = Some c \<and> w \<in> set (workspaces c)"
  by (auto simp: findWorkspace_def Let_def find_Some_iff split: option.splits)

lemma findWorkspace_None_no_id:
  "findWorkspace (Some cfg) sel = None \<Longrightarrow> \<not> list_ex (\<lambda>w. ws_id w = sel) (workspaces cfg)"
  by (auto simp: findWorkspace_def Let_def list_ex_iff find_None_iff split: option.splits)

lemma list_workspaces_config:
  "snd (list_workspaces cfg a) = cfg \<or>
   (\<exists>c w. cfg = Some c \<and> w \<in> set (workspaces c) \<and>
      snd (list_workspaces cfg a) = Some (c\<lparr>activeWorkspaceId := Some (ws_id w)\<rparr>))"
  by (auto simp: list_workspaces_def split: option.splits if_splits dest: findWorkspace_member)

lemma callTool_state:
  assumes "callTool x st r = Some (out, st')"
  shows "st' = st \<or>
         (\<exists>c w. workspacesConfig st = Some c \<and> w \<in> set (workspaces c) \<and>
            st' = st\<lparr>workspacesConfig := Some (c\<lparr>activeWorkspaceId := Some (ws_id w)\<rparr>)\<rparr>)"
proof (cases "req_name r = ''list_workspaces''")
  case True
  then have "st' = st\<lparr>workspacesConfig := snd (list_workspaces (workspacesConfig st) (req_arguments r))\<rparr>"
    using assms by (auto simp: callTool_def dispatch_def Let_def split: prod.splits)
  then show ?thesis
    using list_workspaces_config [of "workspacesConfig st" "req_arguments r"] by auto
next
  case False
  then have "st' = st"
    using assms by (auto simp: callTool_def dispatch_def Let_def split: if_splits)
  then show ?thesis by simp
qed

lemma callTool_wellFormed:
  assumes "callTool x st r = Some (out, st')" and "wellFormed st"
  shows "wellFormed st'"
  using callTool_state [OF assms(1)] assms(2)
  by (auto simp: wellFormed_def split: option.splits if_splits)

lemma callTool_activeOk:
  assumes "callTool x st r = Some (out, st')" and "activeOk st"
  shows "activeOk st'"
  using callTool_state [OF assms(1)] assms(2)
  by (fastforce simp: activeOk_def configActiveOk_def list_ex_iff split: option.splits)

lemma run_wellFormed: "run x st rs = Some st' \<Longrightarrow> wellFormed st \<Longrightarrow> wellFormed st'"
proof (induction rs arbitrary: st)
  case Nil
  then show ?case by simp
next
  case (Cons r rs)
  then obtain out st1 where s: "callTool x st r = Some (out, st1)" "run x st1 rs = Some st'"
    by (auto split: option.splits)
  then show ?case
    using Cons.IH Cons.prems(2) callTool_wellFormed by blast
qed

lemma run_activeOk: "run x st rs = Some st' \<Longrightarrow> activeOk st \<Longrightarrow> activeOk st'"
proof (induction rs arbitrary: st)
  case Nil
  then show ?case by simp
next
  case (Cons r rs)
  then obtain out st1 where s: "callTool x st r = Some (out, st1)" "run x st1 rs = Some st'"
    by (auto split: option.splits)
  then show ?case
    using Cons.IH Cons.prems(2) callTool_activeOk by blast
qed

lemma reachable_wellFormed:
  "startup decodeParse e = Inr st0 \<Longrightarrow> run x st0 calls = Some st \<Longrightarrow> wellFormed st"
  using startup_wellFormed run_wellFormed by blast

subsection \<open>Resolution in a well-formed state\<close>

lemma wellFormed_resolve_default:
  assumes "wellFormed st"
  shows "\<exists>c. getLinearClient st None = Inr (Some c)"
proof -
  from assms obtain cfg where cfg: "workspacesConfig st = Some cfg"
    by (auto simp: wellFormed_def split: option.splits)
  show ?thesis
  proof (cases "workspaces cfg")
    case Nil
    with assms cfg show ?thesis
      by (auto simp: wellFormed_def getLinearClient_def clientFor_def defaultWorkspaceId_def)
  next
    case (Cons w ws)
    with assms cfg have "linearClients st (ws_id w) \<noteq> None"
      using poolOf_member [of w "workspaces cfg"] by (simp add: wellFormed_def)
    with cfg Cons show ?thesis
      by (auto simp: getLinearClient_def clientFor_def split: option.splits)
  qed
qed

lemma wellFormed_resolve_non_id:
  assumes "wellFormed st" and "workspacesConfig st = Some cfg"
    and "\<not> list_ex (\<lambda>w. ws_id w = sel) (workspaces cfg)"
  shows "getLinearClient st (Some sel) = getLinearClient st None"
proof (cases "workspaces cfg = []")
  case True
  with assms show ?thesis
    by (auto simp: wellFormed_def getLinearClient_def clientFor_def defaultWorkspaceId_def
        split: option.splits if_splits)
next
  case False
  with assms have "linearClients st sel = None"
    by (simp add: wellFormed_def poolOf_None)
  then show ?thesis
    by (simp add: getLinearClient_def clientFor_def)
qed

subsection \<open>The scenario states\<close>

lemma startup_AB: "startup (parseAs rawAB cfgAB) (envOf rawAB) = Inr (started cfgAB)"
  by (rule startup_structured)
    (simp_all add: parseEnv_parseAs rawAB_def cfgAB_def wsAlpha_def wsBeta_def)

lemma startup_Dangling:
  "startup (parseAs rawDangling cfgDangling) (envOf rawDangling) = Inr (started cfgDangling)"
  by (rule startup_structured)
    (simp_all add: parseEnv_parseAs rawDangling_def cfgDangling_def wsAlpha_def wsBeta_def)

subsection \<open>Lookup by id, name and alias\<close>

lemma aliasHit_aliasMatch: "aliasHit (toLowerCase sel) w = aliasMatch sel w"
proof (cases "ws_aliases w")
  case None
  then show ?thesis
    by (simp add: aliasHit_def aliasMatch_def aliasEntries_def)
next
  case (Some al)
  show ?thesis
  proof (cases "al = []")
    case True
    with Some show ?thesis
      by (simp add: aliasHit_def aliasMatch_def aliasEntries_def)
  next
    case False
    with Some show ?thesis
      by (simp add: aliasHit_def aliasMatch_def aliasEntries_def list_ex_iff image_iff) metis
  qed
qed

lemma findWorkspace_cases:
  "findWorkspace (Some cfg) sel =
     (if list_ex (\<lambda>w. ws_id w = sel) (workspaces cfg) then find (\<lambda>w. ws_id w = sel) (workspaces cfg)
      else if list_ex (nameMatch sel) (workspaces cfg) then find (nameMatch sel) (workspaces cfg)
      else find (aliasMatch sel) (workspaces cfg))"
proof -
  have a: "aliasHit (toLowerCase sel) = aliasMatch sel"
    by (rule ext) (rule aliasHit_aliasMatch)
  have n: "(\<lambda>ws. toLowerCase (ws_name ws) = toLowerCase sel) = nameMatch sel"
    by (rule ext) (simp add: nameMatch_def)
  show ?thesis
    unfolding findWorkspace_def Let_def a n
    by (simp add: list_ex_find split: option.splits)
qed

lemma work_main_entries:
  "ws_aliases w = Some ''work, main'' \<Longrightarrow> aliasEntries w = [''work'', ''main'']"
  by (simp add: aliasEntries_def trim_def isWhiteSpace_def)

lemma lower_examples:
  "toLowerCase ''Work'' = ''work''" "toLowerCase ''MAIN'' = ''main''"
  "toLowerCase ''wor'' = ''wor''" "toLowerCase ''work'' = ''work''"
  "toLowerCase ''main'' = ''main''"
  by (simp_all add: toLowerCase_def lowerChar_def)

text \<open>
  C3.  \<open>findWorkspace\<close> decides a selector in three tiers, in this order: if some record
  has exactly this id, the result is the first record with this id; otherwise, if some
  record's name equals the selector without regard to case, the first such record;
  otherwise the first record with an alias entry (comma-delimited, trimmed) equal to the
  selector without regard to case.  With unique ids a selector equal to a record's id
  returns that record, whatever other records match by name or alias.  Nothing is found
  exactly when no record matches in any of the three ways.  A registry holding one
  workspace with the aliases \<open>work, main\<close> finds it for \<open>Work\<close>, for \<open>MAIN\<close> and for
  its id, and finds nothing for \<open>wor\<close> unless that is its id or name.
\<close>

theorem findWorkspace_three_tiers:
  "(list_ex (\<lambda>w. ws_id w = sel) (workspaces cfg) \<longrightarrow>
       findWorkspace (Some cfg) sel = find (\<lambda>w. ws_id w = sel) (workspaces cfg))
   \<and> (\<not> list_ex (\<lambda>w. ws_id w = sel) (workspaces cfg) \<and> list_ex (nameMatch sel) (workspaces cfg) \<longrightarrow>
       findWorkspace (Some cfg) sel = find (nameMatch sel) (workspaces cfg))
   \<and> (\<not> list_ex (\<lambda>w. ws_id w = sel) (workspaces cfg) \<and> \<not> list_ex (nameMatch sel) (workspaces cfg) \<longrightarrow>
       findWorkspace (Some cfg) sel = find (aliasMatch sel) (workspaces cfg))
   \<and> (w \<in> set (workspaces cfg) \<and> ws_id w = sel \<and> distinct (map ws_id (workspaces cfg)) \<longrightarrow>
       findWorkspace (Some cfg) sel = Some w)
   \<and> (findWorkspace (Some cfg) sel = None \<longleftrightarrow>
       \<not> list_ex (\<lambda>w. ws_id w = sel \<or> nameMatch sel w \<or> aliasMatch sel w) (workspaces cfg))
   \<and> (workspaces cfg = [w] \<and> ws_aliases w = Some ''work, main'' \<longrightarrow>
       findWorkspace (Some cfg) ''Work'' = Some w \<and> findWorkspace (Some cfg) ''MAIN'' = Some w
       \<and> findWorkspace (Some cfg) (ws_id w) = Some w
       \<and> (ws_id w \<noteq> ''wor'' \<and> toLowerCase (ws_name w) \<noteq> ''wor'' \<longrightarrow> findWorkspace (Some cfg) ''wor'' = None))"
proof (intro conjI impI)
  assume "list_ex (\<lambda>w. ws_id w = sel) (workspaces cfg)"
  then show "findWorkspace (Some cfg) sel = find (\<lambda>w. ws_id w = sel) (workspaces cfg)"
    by (simp add: findWorkspace_cases)
next
  assume "\<not> list_ex (\<lambda>w. ws_id w = sel) (workspaces cfg) \<and> list_ex (nameMatch sel) (workspaces cfg)"
  then show "findWorkspace (Some cfg) sel = find (nameMatch sel) (workspaces cfg)"
    by (simp add: findWorkspace_cases)
next
  assume "\<not> list_ex (\<lambda>w. ws_id w = sel) (workspaces cfg) \<and> \<not> list_ex (nameMatch sel) (workspaces cfg)"
  then show "findWorkspace (Some cfg) sel = find (aliasMatch sel) (workspaces cfg)"
    by (simp add: findWorkspace_cases)
next
  assume h: "w \<in> set (workspaces cfg) \<and> ws_id w = sel \<and> distinct (map ws_id (workspaces cfg))"
  then have "find (\<lambda>v. ws_id v = ws_id w) (workspaces cfg) = Some w"
    using find_distinct_key [of w "workspaces cfg" ws_id] by blast
  moreover have "list_ex (\<lambda>v. ws_id v = sel) (workspaces cfg)"
    using h by (auto simp: list_ex_iff)
  ultimately show "findWorkspace (Some cfg) sel = Some w"
    using h by (auto simp: findWorkspace_cases)
next
  show "findWorkspace (Some cfg) sel = None \<longleftrightarrow>
       \<not> list_ex (\<lambda>w. ws_id w = sel \<or> nameMatch sel w \<or> aliasMatch sel w) (workspaces cfg)"
    by (auto simp: findWorkspace_cases list_ex_iff find_None_iff)
next
  assume h: "workspaces cfg = [w] \<and> ws_aliases w = Some ''work, main''"
  then have e: "aliasEntries w = [''work'', ''main'']"
    by (simp add: work_main_entries)
  show "findWorkspace (Some cfg) ''Work'' = Some w"
    using h e by (simp add: findWorkspace_cases aliasMatch_def nameMatch_def lower_examples)
  show "findWorkspace (Some cfg) ''MAIN'' = Some w"
    using h e by (simp add: findWorkspace_cases aliasMatch_def nameMatch_def lower_examples)
  show "findWorkspace (Some cfg) (ws_id w) = Some w"
    using h by (simp add: findWorkspace_cases)
next
  assume h: "workspaces cfg = [w] \<and> ws_aliases w = Some ''work, main''"
    and n: "ws_id w \<noteq> ''wor'' \<and> toLowerCase (ws_name w) \<noteq> ''wor''"
  then have e: "aliasEntries w = [''work'', ''main'']"
    by (simp add: work_main_entries)
  show "findWorkspace (Some cfg) ''wor'' = None"
    using h e n by (simp add: findWorkspace_cases aliasMatch_def nameMatch_def lower_examples)
qed

theorem findWorkspace_three_tiers_witness:
  "findWorkspace (Some envExample) ''work-project'' = Some wsWork
   \<and> findWorkspace (Some envExample) ''personal project'' = Some wsPersonal
   \<and> findWorkspace (Some envExample) ''SIDE'' = Some wsPersonal
   \<and> findWorkspace (Some (envExample\<lparr>workspaces := [wsWork]\<rparr>)) ''Work'' = Some wsWork
   \<and> findWorkspace (Some (envExample\<lparr>workspaces := [wsWork]\<rparr>)) ''MAIN'' = Some wsWork
   \<and> findWorkspace (Some (envExample\<lparr>workspaces := [wsWork]\<rparr>)) ''wor'' = None"
proof -
  have d: "wsWork \<in> set (workspaces envExample) \<and> ws_id wsWork = ''work-project''
           \<and> distinct (map ws_id (workspaces envExample))"
    by (simp add: envExample_def wsWork_def wsPersonal_def)
  have a: "findWorkspace (Some envExample) ''work-project'' = Some wsWork"
    using findWorkspace_three_tiers [of "''work-project''" envExample wsWork] d by blast
  have n: "\<not> list_ex (\<lambda>w. ws_id w = ''personal project'') (workspaces envExample)
           \<and> list_ex (nameMatch ''personal project'') (workspaces envExample)"
    by (simp add: envExample_def wsWork_def wsPersonal_def nameMatch_def toLowerCase_def lowerChar_def)
  have "findWorkspace (Some envExample) ''personal project''
          = find (nameMatch ''personal project'') (workspaces envExample)"
    using findWorkspace_three_tiers [of "''personal project''" envExample wsWork] n by blast
  then have b: "findWorkspace (Some envExample) ''personal project'' = Some wsPersonal"
    by (simp add: envExample_def wsWork_def wsPersonal_def nameMatch_def toLowerCase_def lowerChar_def)
  have m: "\<not> list_ex (\<lambda>w. ws_id w = ''SIDE'') (workspaces envExample)
           \<and> \<not> list_ex (nameMatch ''SIDE'') (workspaces envExample)"
    by (simp add: envExample_def wsWork_def wsPersonal_def nameMatch_def toLowerCase_def lowerChar_def)
  have "findWorkspace (Some envExample) ''SIDE'' = find (aliasMatch ''SIDE'') (workspaces envExample)"
    using findWorkspace_three_tiers [of "''SIDE''" envExample wsWork] m by blast
  then have c: "findWorkspace (Some envExample) ''SIDE'' = Some wsPersonal"
    by (simp add: envExample_def wsWork_def wsPersonal_def aliasMatch_def aliasEntries_def
        toLowerCase_def lowerChar_def trim_def isWhiteSpace_def)
  let ?c = "envExample\<lparr>workspaces := [wsWork]\<rparr>"
  have s: "workspaces ?c = [wsWork] \<and> ws_aliases wsWork = Some ''work, main''"
    by (simp add: wsWork_def)
  have t: "ws_id wsWork \<noteq> ''wor'' \<and> toLowerCase (ws_name wsWork) \<noteq> ''wor''"
    by (simp add: wsWork_def toLowerCase_def lowerChar_def)
  have e: "findWorkspace (Some ?c) ''Work'' = Some wsWork \<and> findWorkspace (Some ?c) ''MAIN'' = Some wsWork
           \<and> findWorkspace (Some ?c) ''wor'' = None"
    using findWorkspace_three_tiers [of sel ?c wsWork] s t by blast
  from a b c e show ?thesis by blast
qed

subsection \<open>Resolution of a selector\<close>

lemma resolve_AB:
  "getLinearClient (started cfgAB) None = Inr (Some (LinearClient ''key-b''))"
  "getLinearClient (started cfgAB) (Some ''a'') = Inr (Some (LinearClient ''key-a''))"
  "getLinearClient (started cfgAB) (Some ''Alpha'') = Inr (Some (LinearClient ''key-b''))"
  "getLinearClient (started cfgAB) (Some ''zzz'') = Inr (Some (LinearClient ''key-b''))"
  by (simp_all add: getLinearClient_def clientFor_def started_def cfgAB_def poolOf_def
      wsAlpha_def wsBeta_def)

lemma resolve_AB_selected:
  "getLinearClient ((started cfgAB)\<lparr>workspacesConfig := Some (cfgAB\<lparr>activeWorkspaceId := Some ''a''\<rparr>)\<rparr>) None
     = Inr (Some (LinearClient ''key-a''))"
  by (simp add: getLinearClient_def clientFor_def started_def cfgAB_def poolOf_def
      wsAlpha_def wsBeta_def)

text \<open>A call of \<open>list_workspaces\<close> that selects \<open>Alpha\<close>.\<close>

lemma select_Alpha:
  "callTool extDown (started cfgAB)
     \<lparr>req_name = ''list_workspaces'', req_arguments = Some [''workspace'' \<mapsto> ''Alpha'']\<rparr>
   = Some (Returned (textResult (Stringify
             (JObject [(''workspaces'', JArray [wsView wsAlpha, wsView wsBeta]),
                       (''activeWorkspace'', wsView wsAlpha)]) 0)),
           (started cfgAB)\<lparr>workspacesConfig := Some (cfgAB\<lparr>activeWorkspaceId := Some ''a''\<rparr>)\<rparr>)"
  by (simp add: callTool_def dispatch_def list_workspaces_def started_def cfgAB_def findWorkspace_def
      wsAlpha_def wsBeta_def toLowerCase_def lowerChar_def)

text \<open>
  C1 fails on the code.  In the scenario state (workspaces \<open>a\<close> and \<open>b\<close>, \<open>b\<close> active) the
  selector \<open>zzz\<close> matches no id, name or alias, and \<open>getLinearClient\<close> returns the client
  of the active workspace \<open>b\<close> instead of failing.
\<close>

theorem unknown_selector_counterexample:
  "startup (parseAs rawAB cfgAB) (envOf rawAB) = Inr (started cfgAB)
   \<and> findWorkspace (workspacesConfig (started cfgAB)) ''zzz'' = None
   \<and> getLinearClient (started cfgAB) (Some ''zzz'') = Inr (Some (LinearClient (ws_apiKey wsBeta)))"
proof -
  have "findWorkspace (workspacesConfig (started cfgAB)) ''zzz'' = None"
    by (simp add: started_def cfgAB_def findWorkspace_def wsAlpha_def wsBeta_def toLowerCase_def
        lowerChar_def aliasHit_def)
  moreover have "getLinearClient (started cfgAB) (Some ''zzz'') = Inr (Some (LinearClient (ws_apiKey wsBeta)))"
    by (simp add: resolve_AB wsBeta_def)
  ultimately show ?thesis
    using startup_AB by simp
qed

lemma wellFormed_pool_distinct:
  assumes "wellFormed st" and "workspacesConfig st = Some cfg" and "w \<in> set (workspaces cfg)"
    and "distinct (map ws_id (workspaces cfg))"
  shows "linearClients st (ws_id w) = Some (LinearClient (ws_apiKey w))"
proof -
  from assms(3) have "workspaces cfg \<noteq> []" by auto
  with assms(1,2) have p: "linearClients st = poolOf (workspaces cfg)"
    by (simp add: wellFormed_def)
  have "find (\<lambda>v. ws_id v = ws_id w) (rev (workspaces cfg)) = Some w"
    using assms(3,4) find_distinct_key [of w "rev (workspaces cfg)" ws_id]
    by (simp add: rev_map [symmetric])
  then show ?thesis
    by (simp add: p poolOf_lookup)
qed

text \<open>
  C1 as amended.  In every state reached from start-up by tool calls, a non-empty
  selector that matches no workspace by id, name or alias does not fail and is resolved
  exactly as no selector is: if the active id is set, not empty and pooled, the result
  is the client pooled under the active id; otherwise it is the client pooled under the
  id of the first workspace in declaration order.  With unique ids the client pooled
  under the id of a workspace is the one built from that workspace's credential.
\<close>

theorem unknown_selector_resolves_as_none:
  assumes "startup decodeParse e = Inr st0" and "run x st0 calls = Some st"
    and "sel \<noteq> []" and "findWorkspace (workspacesConfig st) sel = None"
  shows "\<exists>cfg. workspacesConfig st = Some cfg
           \<and> getLinearClient st (Some sel) = getLinearClient st None
           \<and> (\<forall>a c. activeWorkspaceId cfg = Some a \<and> a \<noteq> [] \<and> linearClients st a = Some c \<longrightarrow>
                  getLinearClient st (Some sel) = Inr (Some c))
           \<and> (\<not> (\<exists>a c. activeWorkspaceId cfg = Some a \<and> a \<noteq> [] \<and> linearClients st a = Some c) \<longrightarrow>
                  (\<exists>w ws c. workspaces cfg = w # ws \<and> linearClients st (ws_id w) = Some c
                     \<and> getLinearClient st (Some sel) = Inr (Some c)))
           \<and> (\<forall>w. w \<in> set (workspaces cfg) \<and> distinct (map ws_id (workspaces cfg)) \<longrightarrow>
                  linearClients st (ws_id w) = Some (LinearClient (ws_apiKey w)))"
proof -
  have wf: "wellFormed st"
    using assms(1,2) by (rule reachable_wellFormed)
  then obtain cfg where cfg: "workspacesConfig st = Some cfg"
    by (auto simp: wellFormed_def split: option.splits)
  with assms(4) have "\<not> list_ex (\<lambda>w. ws_id w = sel) (workspaces cfg)"
    by (simp add: findWorkspace_None_no_id)
  with wf cfg have eq: "getLinearClient st (Some sel) = getLinearClient st None"
    by (rule wellFormed_resolve_non_id)
  have a: "getLinearClient st None = Inr (Some c)"
    if "activeWorkspaceId cfg = Some a \<and> a \<noteq> [] \<and> linearClients st a = Some c" for a c
    using that cfg by (simp add: getLinearClient_def clientFor_def)
  have b: "\<exists>w ws c. workspaces cfg = w # ws \<and> linearClients st (ws_id w) = Some c
             \<and> getLinearClient st None = Inr (Some c)"
    if n: "\<not> (\<exists>a c. activeWorkspaceId cfg = Some a \<and> a \<noteq> [] \<and> linearClients st a = Some c)"
  proof -
    have na: "clientFor (linearClients st) (activeWorkspaceId cfg) = None"
      using n by (cases "activeWorkspaceId cfg") (auto simp: clientFor_def)
    have "workspaces cfg \<noteq> []"
      using wf cfg n by (auto simp: wellFormed_def defaultWorkspaceId_def)
    then obtain w ws where w: "workspaces cfg = w # ws"
      by (cases "workspaces cfg") auto
    with wf cfg have "linearClients st (ws_id w) \<noteq> None"
      using poolOf_member [of w "workspaces cfg"] by (simp add: wellFormed_def)
    then obtain c where c: "linearClients st (ws_id w) = Some c"
      by auto
    have "getLinearClient st None = Inr (Some c)"
      using cfg na w c by (simp add: getLinearClient_def clientFor_def)
    with w c show ?thesis by blast
  qed
  have c: "linearClients st (ws_id w) = Some (LinearClient (ws_apiKey w))"
    if "w \<in> set (workspaces cfg) \<and> distinct (map ws_id (workspaces cfg))" for w
    using wf cfg that by (simp add: wellFormed_pool_distinct)
  from cfg eq a b c show ?thesis
    by (intro exI [of _ cfg]) (simp only: eq, blast)
qed

theorem unknown_selector_resolves_as_none_witness:
  "startup (parseAs rawAB cfgAB) (envOf rawAB) = Inr (started cfgAB)
   \<and> run extDown (started cfgAB) [] = Some (started cfgAB)
   \<and> findWorkspace (workspacesConfig (started cfgAB)) ''zzz'' = None
   \<and> getLinearClient (started cfgAB) (Some ''zzz'') = Inr (Some (LinearClient ''key-b''))
   \<and> startup (parseAs rawDangling cfgDangling) (envOf rawDangling) = Inr (started cfgDangling)
   \<and> findWorkspace (workspacesConfig (started cfgDangling)) ''nope'' = None
   \<and> getLinearClient (started cfgDangling) (Some ''nope'') = Inr (Some (LinearClient ''key-a''))"
proof -
  have r1: "run extDown (started cfgAB) [] = Some (started cfgAB)"
    and r2: "run extDown (started cfgDangling) [] = Some (started cfgDangling)"
    by simp_all
  have n1: "''zzz'' \<noteq> []" and n2: "''nope'' \<noteq> []"
    by simp_all
  have f1: "findWorkspace (workspacesConfig (started cfgAB)) ''zzz'' = None"
    by (simp add: started_def cfgAB_def findWorkspace_def wsAlpha_def wsBeta_def toLowerCase_def
        lowerChar_def aliasHit_def)
  have f2: "findWorkspace (workspacesConfig (started cfgDangling)) ''nope'' = None"
    by (simp add: started_def cfgDangling_def findWorkspace_def wsAlpha_def wsBeta_def toLowerCase_def
        lowerChar_def aliasHit_def)
  have p1: "activeWorkspaceId cfgAB = Some ''b'' \<and> ''b'' \<noteq> []
            \<and> linearClients (started cfgAB) ''b'' = Some (LinearClient ''key-b'')"
    by (simp add: started_def cfgAB_def poolOf_def wsAlpha_def wsBeta_def)
  have p2: "\<not> (\<exists>a c. activeWorkspaceId cfgDangling = Some a \<and> a \<noteq> []
                 \<and> linearClients (started cfgDangling) a = Some c)"
    by (simp add: started_def cfgDangling_def poolOf_def wsAlpha_def wsBeta_def)
  have q2: "workspaces cfgDangling = wsAlpha # [wsBeta]
            \<and> linearClients (started cfgDangling) (ws_id wsAlpha) = Some (LinearClient ''key-a'')"
    by (simp add: started_def cfgDangling_def poolOf_def wsAlpha_def wsBeta_def)
  obtain cfg where c1: "workspacesConfig (started cfgAB) = Some cfg"
    and a1: "\<forall>a c. activeWorkspaceId cfg = Some a \<and> a \<noteq> [] \<and> linearClients (started cfgAB) a = Some c \<longrightarrow>
                  getLinearClient (started cfgAB) (Some ''zzz'') = Inr (Some c)"
    using unknown_selector_resolves_as_none [OF startup_AB r1 n1 f1] by blast
  from c1 have "cfg = cfgAB"
    by (simp add: started_def)
  with a1 p1 have g1: "getLinearClient (started cfgAB) (Some ''zzz'') = Inr (Some (LinearClient ''key-b''))"
    by blast
  obtain cfg' where c2: "workspacesConfig (started cfgDangling) = Some cfg'"
    and b2: "\<not> (\<exists>a c. activeWorkspaceId cfg' = Some a \<and> a \<noteq> [] \<and> linearClients (started cfgDangling) a = Some c) \<longrightarrow>
                  (\<exists>w ws c. workspaces cfg' = w # ws \<and> linearClients (started cfgDangling) (ws_id w) = Some c
                     \<and> getLinearClient (started cfgDangling) (Some ''nope'') = Inr (Some c))"
    using unknown_selector_resolves_as_none [OF startup_Dangling r2 n2 f2] by blast
  from c2 have "cfg' = cfgDangling"
    by (simp add: started_def)
  with b2 p2 obtain w ws c where "workspaces cfgDangling = w # ws"
    "linearClients (started cfgDangling) (ws_id w) = Some c"
    "getLinearClient (started cfgDangling) (Some ''nope'') = Inr (Some c)"
    by blast
  with q2 have g2: "getLinearClient (started cfgDangling) (Some ''nope'') = Inr (Some (LinearClient ''key-a''))"
    by simp
  from startup_AB r1 f1 g1 startup_Dangling f2 g2 show ?thesis
    by simp
qed

lemma find_rev_last:
  "find P (rev xs) = (case filter P xs of [] \<Rightarrow> None | y # ys \<Rightarrow> Some (last (y # ys)))"
  by (induction xs) (auto simp: find_app split: list.splits option.splits)

lemma filter_distinct_key:
  "w \<in> set wss \<Longrightarrow> distinct (map f wss) \<Longrightarrow> filter (\<lambda>v. f v = f w) wss = [w]"
proof (induction wss)
  case Nil
  then show ?case by simp
next
  case (Cons a wss)
  have "f a \<notin> set (map f wss)"
    using Cons.prems(2) by simp
  then have "f v \<noteq> f a" if "v \<in> set wss" for v
    using that by (metis imageI set_map)
  then have "a = w \<Longrightarrow> filter (\<lambda>v. f v = f w) wss = []"
    by (auto simp: filter_empty_conv)
  with Cons show ?case
    by auto
qed

lemma wellFormed_resolve_id:
  assumes "wellFormed st" and "workspacesConfig st = Some cfg" and "w \<in> set (workspaces cfg)"
    and "ws_id w \<noteq> []"
  shows "getLinearClient st (Some (ws_id w)) =
           Inr (Some (LinearClient (ws_apiKey (last (filter (\<lambda>v. ws_id v = ws_id w) (workspaces cfg))))))"
proof -
  from assms(3) have ne: "workspaces cfg \<noteq> []" by auto
  with assms(1,2) have p: "linearClients st = poolOf (workspaces cfg)"
    by (simp add: wellFormed_def)
  from assms(3) obtain y ys where f: "filter (\<lambda>v. ws_id v = ws_id w) (workspaces cfg) = y # ys"
    by (cases "filter (\<lambda>v. ws_id v = ws_id w) (workspaces cfg)") (auto simp: filter_empty_conv)
  then have "linearClients st (ws_id w) = Some (LinearClient (ws_apiKey (last (y # ys))))"
    by (simp add: p poolOf_lookup find_rev_last)
  with f assms(4) show ?thesis
    by (simp add: getLinearClient_def clientFor_def)
qed

text \<open>
  C4 fails on the code.  In the scenario state \<open>findWorkspace\<close> resolves \<open>Alpha\<close> to
  workspace \<open>a\<close> by name, but \<open>getLinearClient\<close>, which only compares ids, returns the
  client of the active workspace \<open>b\<close>; and for \<open>zzz\<close> it returns that client too
  instead of failing.
\<close>

theorem resolve_by_name_counterexample:
  "startup (parseAs rawAB cfgAB) (envOf rawAB) = Inr (started cfgAB)
   \<and> findWorkspace (workspacesConfig (started cfgAB)) ''Alpha'' = Some wsAlpha
   \<and> getLinearClient (started cfgAB) (Some ''Alpha'') = Inr (Some (LinearClient (ws_apiKey wsBeta)))
   \<and> LinearClient (ws_apiKey wsBeta) \<noteq> LinearClient (ws_apiKey wsAlpha)
   \<and> getLinearClient (started cfgAB) (Some ''zzz'') = Inr (Some (LinearClient (ws_apiKey wsBeta)))"
proof -
  have "findWorkspace (workspacesConfig (started cfgAB)) ''Alpha'' = Some wsAlpha"
    by (simp add: started_def cfgAB_def findWorkspace_def wsAlpha_def wsBeta_def toLowerCase_def
        lowerChar_def)
  moreover have "getLinearClient (started cfgAB) (Some ''Alpha'') = Inr (Some (LinearClient (ws_apiKey wsBeta)))"
    by (simp add: resolve_AB wsBeta_def)
  moreover have "getLinearClient (started cfgAB) (Some ''zzz'') = Inr (Some (LinearClient (ws_apiKey wsBeta)))"
    by (simp add: resolve_AB wsBeta_def)
  moreover have "LinearClient (ws_apiKey wsBeta) \<noteq> LinearClient (ws_apiKey wsAlpha)"
    by (simp add: wsAlpha_def wsBeta_def)
  ultimately show ?thesis
    using startup_AB by simp
qed

text \<open>
  C4 as amended.  In every state reached from start-up by tool calls, a selector equal
  to the non-empty id of a configured workspace \<open>w\<close> is resolved to the client pooled
  under that id, whatever the active workspace and the declaration order: the client
  built from the last entry with that id, which is \<open>w\<close>'s own client when ids are
  unique.  A selector that is no workspace's id (one that matches by name or alias only
  included) is resolved as no selector is.
\<close>

theorem resolve_by_id:
  assumes "startup decodeParse e = Inr st0" and "run x st0 calls = Some st"
    and "workspacesConfig st = Some cfg"
  shows "(w \<in> set (workspaces cfg) \<and> ws_id w \<noteq> [] \<longrightarrow>
            getLinearClient st (Some (ws_id w)) =
              Inr (Some (LinearClient (ws_apiKey (last (filter (\<lambda>v. ws_id v = ws_id w) (workspaces cfg)))))))
         \<and> (w \<in> set (workspaces cfg) \<and> ws_id w \<noteq> [] \<and> distinct (map ws_id (workspaces cfg)) \<longrightarrow>
            getLinearClient st (Some (ws_id w)) = Inr (Some (LinearClient (ws_apiKey w))))
         \<and> (\<not> list_ex (\<lambda>v. ws_id v = sel) (workspaces cfg) \<longrightarrow>
            getLinearClient st (Some sel) = getLinearClient st None)"
proof -
  have wf: "wellFormed st"
    using assms(1,2) by (rule reachable_wellFormed)
  have a: "getLinearClient st (Some (ws_id w)) =
              Inr (Some (LinearClient (ws_apiKey (last (filter (\<lambda>v. ws_id v = ws_id w) (workspaces cfg))))))"
    if "w \<in> set (workspaces cfg)" "ws_id w \<noteq> []"
    using wf assms(3) that by (rule wellFormed_resolve_id)
  have b: "getLinearClient st (Some (ws_id w)) = Inr (Some (LinearClient (ws_apiKey w)))"
    if "w \<in> set (workspaces cfg)" "ws_id w \<noteq> []" "distinct (map ws_id (workspaces cfg))"
    using a that filter_distinct_key [of w "workspaces cfg" ws_id] by simp
  have c: "getLinearClient st (Some sel) = getLinearClient st None"
    if "\<not> list_ex (\<lambda>v. ws_id v = sel) (workspaces cfg)"
    using wf assms(3) that by (rule wellFormed_resolve_non_id)
  from a b c show ?thesis by blast
qed

theorem resolve_by_id_witness:
  "startup (parseAs rawAB cfgAB) (envOf rawAB) = Inr (started cfgAB)
   \<and> run extDown (started cfgAB) [] = Some (started cfgAB)
   \<and> getLinearClient (started cfgAB) None = Inr (Some (LinearClient ''key-b''))
   \<and> getLinearClient (started cfgAB) (Some ''a'') = Inr (Some (LinearClient ''key-a''))
   \<and> getLinearClient (started cfgAB) (Some ''Alpha'') = Inr (Some (LinearClient ''key-b''))"
proof -
  have r: "run extDown (started cfgAB) [] = Some (started cfgAB)"
    by simp
  have c: "workspacesConfig (started cfgAB) = Some cfgAB"
    by (simp add: started_def)
  have m: "wsAlpha \<in> set (workspaces cfgAB) \<and> ws_id wsAlpha \<noteq> [] \<and> distinct (map ws_id (workspaces cfgAB))"
    by (simp add: cfgAB_def wsAlpha_def wsBeta_def)
  have n: "\<not> list_ex (\<lambda>v. ws_id v = ''Alpha'') (workspaces cfgAB)"
    by (simp add: cfgAB_def wsAlpha_def wsBeta_def)
  have d: "getLinearClient (started cfgAB) None = Inr (Some (LinearClient ''key-b''))"
    by (rule resolve_AB)
  have "getLinearClient (started cfgAB) (Some (ws_id wsAlpha)) = Inr (Some (LinearClient (ws_apiKey wsAlpha)))"
    using resolve_by_id [OF startup_AB r c, of wsAlpha "''Alpha''"] m by blast
  moreover have "getLinearClient (started cfgAB) (Some ''Alpha'') = getLinearClient (started cfgAB) None"
    using resolve_by_id [OF startup_AB r c, of wsAlpha "''Alpha''"] n by blast
  ultimately show ?thesis
    using startup_AB r d by (simp add: wsAlpha_def)
qed

subsection \<open>The active pointer\<close>

text \<open>
  C5 fails on the code.  The configuration is taken as parsed: with an
  \<open>activeWorkspaceId\<close> that names no workspace (\<open>zzz\<close>), start-up succeeds and the
  active pointer of the initial state dangles.
\<close>

theorem active_pointer_counterexample:
  "startup (parseAs rawDangling cfgDangling) (envOf rawDangling) = Inr (started cfgDangling)
   \<and> run extDown (started cfgDangling) [] = Some (started cfgDangling)
   \<and> \<not> activeOk (started cfgDangling)"
proof -
  have "startup (parseAs rawDangling cfgDangling) (envOf rawDangling) = Inr (started cfgDangling)"
    by (rule startup_Dangling)
  moreover have "\<not> activeOk (started cfgDangling)"
    by (simp add: activeOk_def configActiveOk_def started_def cfgDangling_def wsAlpha_def wsBeta_def)
  ultimately show ?thesis by simp
qed

lemma startup_activeOk:
  assumes "startup decodeParse e = Inr st0"
    and "case parseEnv decodeParse e of None \<Rightarrow> True | Some cfg \<Rightarrow> configActiveOk cfg"
  shows "activeOk st0"
proof (cases "parseEnv decodeParse e")
  case None
  with assms(1) obtain k where k: "js_or (LINEAR_API_KEY e) (LINEARAPIKEY e) = Some k" "k \<noteq> []"
    by (auto simp: startup_def truthy_def Let_def split: option.splits if_splits)
  with None have "decodeParse k = None"
    by (simp add: parseEnv_def)
  with k assms(1) have "st0 = \<lparr>workspacesConfig = Some (defaultConfig k),
                linearClients = [defaultWorkspaceId \<mapsto> LinearClient k]\<rparr>"
    by (simp add: startup_bare)
  then show ?thesis
    by (simp add: activeOk_def configActiveOk_def defaultConfig_def)
next
  case (Some cfg)
  with assms(1) have "workspacesConfig st0 = Some cfg"
    by (auto simp: startup_def initClients_def Let_def newLinearClient_def
        split: option.splits if_splits sum.splits)
  with Some assms(2) show ?thesis
    by (simp add: activeOk_def)
qed

text \<open>
  C5 as amended.  If the parsed configuration has no \<open>activeWorkspaceId\<close> or one that
  is the id of one of its workspaces (a bare credential always gives such a
  configuration), then in every state reached from start-up by tool calls the active
  pointer, if set, is the id of a workspace record.  Whatever the initial
  configuration, a tool call that changes the state leaves the active pointer at the id
  of a workspace record.
\<close>

theorem active_pointer_kept:
  "(startup decodeParse e = Inr st0
      \<and> (case parseEnv decodeParse e of None \<Rightarrow> True | Some cfg \<Rightarrow> configActiveOk cfg)
      \<and> run x st0 calls = Some st \<longrightarrow> activeOk st)
   \<and> (callTool x st1 r = Some (out, st2) \<and> st2 \<noteq> st1 \<longrightarrow> activeOk st2)"
proof (intro conjI impI)
  assume h: "startup decodeParse e = Inr st0
      \<and> (case parseEnv decodeParse e of None \<Rightarrow> True | Some cfg \<Rightarrow> configActiveOk cfg)
      \<and> run x st0 calls = Some st"
  then have "activeOk st0"
    using startup_activeOk by blast
  with h show "activeOk st"
    using run_activeOk by blast
next
  assume h: "callTool x st1 r = Some (out, st2) \<and> st2 \<noteq> st1"
  then obtain c w where "workspacesConfig st1 = Some c" "w \<in> set (workspaces c)"
    "st2 = st1\<lparr>workspacesConfig := Some (c\<lparr>activeWorkspaceId := Some (ws_id w)\<rparr>)\<rparr>"
    using callTool_state [of x st1 r out st2] by blast
  then show "activeOk st2"
    by (auto simp: activeOk_def configActiveOk_def list_ex_iff)
qed

theorem active_pointer_kept_witness:
  "startup (parseAs rawAB cfgAB) (envOf rawAB) = Inr (started cfgAB)
   \<and> configActiveOk cfgAB
   \<and> run extDown (started cfgAB)
        [\<lparr>req_name = ''list_workspaces'', req_arguments = Some [''workspace'' \<mapsto> ''Alpha'']\<rparr>]
      = Some ((started cfgAB)\<lparr>workspacesConfig := Some (cfgAB\<lparr>activeWorkspaceId := Some ''a''\<rparr>)\<rparr>)
   \<and> activeOk ((started cfgAB)\<lparr>workspacesConfig := Some (cfgAB\<lparr>activeWorkspaceId := Some ''a''\<rparr>)\<rparr>)
   \<and> (started cfgAB)\<lparr>workspacesConfig := Some (cfgAB\<lparr>activeWorkspaceId := Some ''a''\<rparr>)\<rparr> \<noteq> started cfgAB"
proof -
  let ?st = "(started cfgAB)\<lparr>workspacesConfig := Some (cfgAB\<lparr>activeWorkspaceId := Some ''a''\<rparr>)\<rparr>"
  let ?r = "\<lparr>req_name = ''list_workspaces'', req_arguments = Some [''workspace'' \<mapsto> ''Alpha'']\<rparr>"
  have r: "run extDown (started cfgAB) [?r] = Some ?st"
    by (simp add: select_Alpha)
  have p: "parseEnv (parseAs rawAB cfgAB) (envOf rawAB) = Some cfgAB"
    by (simp add: parseEnv_parseAs rawAB_def)
  have c: "configActiveOk cfgAB"
    by (simp add: configActiveOk_def cfgAB_def wsAlpha_def wsBeta_def)
  have d: "?st \<noteq> started cfgAB"
    by (simp add: started_def cfgAB_def)
  obtain out where o: "callTool extDown (started cfgAB) ?r = Some (out, ?st)"
    using select_Alpha by blast
  note k = active_pointer_kept [of "parseAs rawAB cfgAB" "envOf rawAB" "started cfgAB" extDown "[?r]" ?st
      "started cfgAB" ?r out ?st]
  have "activeOk ?st"
    using k o d by blast
  moreover have "activeOk ?st"
    using k startup_AB p c r by simp
  ultimately show ?thesis
    using startup_AB c r d by simp
qed

subsection \<open>Duplicate ids\<close>

text \<open>
  C6 fails on the code.  With two entries of id \<open>a\<close>, start-up succeeds and keeps both,
  and \<open>findWorkspace\<close> returns the earlier entry for \<open>a\<close>, not the later one.  With the
  same two entries without credentials, start-up does not succeed: the construction of
  the first client throws while the module is loaded.
\<close>

theorem duplicate_id_counterexample:
  "startup (parseAs rawDup cfgDup) (envOf rawDup) = Inr (started cfgDup)
   \<and> workspaces cfgDup = [dupFirst, dupSecond]
   \<and> ws_id dupFirst = ws_id dupSecond
   \<and> findWorkspace (workspacesConfig (started cfgDup)) ''a'' = Some dupFirst
   \<and> dupFirst \<noteq> dupSecond
   \<and> startup (parseAs rawDupNoKey cfgDupNoKey) (envOf rawDupNoKey) = Inl ClientRejected"
proof -
  have "startup (parseAs rawDup cfgDup) (envOf rawDup) = Inr (started cfgDup)"
    by (rule startup_structured)
      (simp_all add: parseEnv_parseAs rawDup_def cfgDup_def dupFirst_def dupSecond_def)
  moreover have "findWorkspace (workspacesConfig (started cfgDup)) ''a'' = Some dupFirst"
    by (simp add: started_def cfgDup_def findWorkspace_def dupFirst_def)
  moreover have "dupFirst \<noteq> dupSecond" "ws_id dupFirst = ws_id dupSecond"
    by (simp_all add: dupFirst_def dupSecond_def)
  moreover have "startup (parseAs rawDupNoKey cfgDupNoKey) (envOf rawDupNoKey) = Inl ClientRejected"
  proof (rule startup_rejected)
    show "parseEnv (parseAs rawDupNoKey cfgDupNoKey) (envOf rawDupNoKey) = Some cfgDupNoKey"
      by (simp add: parseEnv_parseAs rawDupNoKey_def)
    show "list_ex (\<lambda>w. ws_apiKey w = []) (workspaces cfgDupNoKey)"
      by (simp add: cfgDupNoKey_def)
  qed
  ultimately show ?thesis
    by (simp add: cfgDup_def)
qed

text \<open>
  C6 as amended.  Let the environment value be a non-empty string that decodes and
  parses to a configuration in which two entries \<open>w1\<close> (earlier) and \<open>w2\<close> (later)
  have the same non-empty id, \<open>w2\<close> being the last entry with it, and in which every
  entry has a non-empty credential.  Then the configuration is accepted as it is, with
  all its entries, start-up succeeds, the pool holds under that id the client built from
  the credential of \<open>w2\<close>, and resolving the id returns that client.
\<close>

theorem duplicate_id_last_client:
  assumes "js_or (LINEAR_API_KEY e) (LINEARAPIKEY e) = Some raw" and "raw \<noteq> []"
    and "decodeParse raw = Some cfg"
    and "workspaces cfg = xs @ w1 # ys @ w2 # zs"
    and "ws_id w1 = i" and "ws_id w2 = i" and "i \<noteq> []"
    and "\<not> list_ex (\<lambda>w. ws_id w = i) zs"
    and "\<not> list_ex (\<lambda>w. ws_apiKey w = []) (workspaces cfg)"
  shows "parseEnv decodeParse e = Some cfg
         \<and> (\<exists>st. startup decodeParse e = Inr st
               \<and> workspacesConfig st = Some cfg
               \<and> linearClients st i = Some (LinearClient (ws_apiKey w2))
               \<and> getLinearClient st (Some i) = Inr (Some (LinearClient (ws_apiKey w2))))"
proof -
  have p: "parseEnv decodeParse e = Some cfg"
    using assms(1,2,3) by (simp add: parseEnv_def)
  have ne: "workspaces cfg \<noteq> []"
    using assms(4) by simp
  have s: "startup decodeParse e = Inr (started cfg)"
    using p ne assms(9) by (rule startup_structured)
  have fz: "find (\<lambda>w. ws_id w = i) (rev zs) = None"
    using assms(8) by (simp add: list_ex_iff find_None_iff)
  have "find (\<lambda>w. ws_id w = i) (rev (workspaces cfg)) = Some w2"
    using assms(4,6) fz by (simp add: find_app)
  then have l: "linearClients (started cfg) i = Some (LinearClient (ws_apiKey w2))"
    by (simp add: started_def poolOf_lookup)
  then have "getLinearClient (started cfg) (Some i) = Inr (Some (LinearClient (ws_apiKey w2)))"
    using assms(7) by (simp add: getLinearClient_def clientFor_def)
  with p s l show ?thesis
    by (simp add: started_def)
qed

theorem duplicate_id_last_client_witness:
  "js_or (LINEAR_API_KEY (envOf rawDup)) (LINEARAPIKEY (envOf rawDup)) = Some rawDup
   \<and> rawDup \<noteq> []
   \<and> parseAs rawDup cfgDup rawDup = Some cfgDup
   \<and> workspaces cfgDup = [] @ dupFirst # [] @ dupSecond # []
   \<and> \<not> list_ex (\<lambda>w. ws_apiKey w = []) (workspaces cfgDup)
   \<and> (\<exists>st. startup (parseAs rawDup cfgDup) (envOf rawDup) = Inr st
          \<and> workspacesConfig st = Some cfgDup
          \<and> linearClients st ''a'' = Some (LinearClient ''key-2'')
          \<and> getLinearClient st (Some ''a'') = Inr (Some (LinearClient ''key-2'')))"
proof -
  have e: "js_or (LINEAR_API_KEY (envOf rawDup)) (LINEARAPIKEY (envOf rawDup)) = Some rawDup"
    and n: "rawDup \<noteq> []"
    by (simp_all add: js_or_def envOf_def truthy_def rawDup_def)
  have d: "parseAs rawDup cfgDup rawDup = Some cfgDup"
    by (simp add: parseAs_def)
  have w: "workspaces cfgDup = [] @ dupFirst # [] @ dupSecond # []"
    by (simp add: cfgDup_def)
  have i: "ws_id dupFirst = ''a''" "ws_id dupSecond = ''a''" "''a'' \<noteq> []"
    "\<not> list_ex (\<lambda>w. ws_id w = ''a'') []"
    by (simp_all add: dupFirst_def dupSecond_def)
  have k: "\<not> list_ex (\<lambda>w. ws_apiKey w = []) (workspaces cfgDup)"
    by (simp add: cfgDup_def dupFirst_def dupSecond_def)
  show ?thesis
    using duplicate_id_last_client
      [where e = "envOf rawDup" and raw = rawDup and decodeParse = "parseAs rawDup cfgDup"
         and cfg = cfgDup and xs = "[]" and ?w1.0 = dupFirst and ys = "[]" and ?w2.0 = dupSecond
         and zs = "[]" and i = "''a''"]
      e n d w i k
    by (simp add: dupSecond_def)
qed

subsection \<open>A bare credential\<close>

text \<open>
  C8.  When the environment value is a non-empty string that does not decode and parse
  to an object with a \<open>workspaces\<close> array, start-up succeeds with a registry of exactly
  one workspace record, whose id is the fixed \<open>default\<close>, whose credential is the raw
  value and which has no aliases; this record is the active one, the pool holds one
  client, built from the raw value, and resolving without a selector returns that client.
\<close>

theorem bare_credential_single_default_workspace:
  assumes "js_or (LINEAR_API_KEY e) (LINEARAPIKEY e) = Some raw" and "raw \<noteq> []"
    and "decodeParse raw = None"
  shows "\<exists>st w. startup decodeParse e = Inr st
           \<and> map_option workspaces (workspacesConfig st) = Some [w]
           \<and> ws_id w = ''default'' \<and> ws_apiKey w = raw \<and> ws_aliases w = None
           \<and> map_option activeWorkspaceId (workspacesConfig st) = Some (Some (ws_id w))
           \<and> linearClients st = [ws_id w \<mapsto> LinearClient raw]
           \<and> getLinearClient st None = Inr (Some (LinearClient raw))"
proof -
  let ?st = "\<lparr>workspacesConfig = Some (defaultConfig raw),
              linearClients = [defaultWorkspaceId \<mapsto> LinearClient raw]\<rparr>"
  let ?w = "\<lparr>ws_id = defaultWorkspaceId, ws_name = ''Default Workspace'',
             ws_email = ''default@linear-mcp.local'', ws_apiKey = raw, ws_aliases = None\<rparr>"
  have "startup decodeParse e = Inr ?st"
    using assms by (rule startup_bare)
  moreover have "map_option workspaces (workspacesConfig ?st) = Some [?w]"
    by (simp add: defaultConfig_def)
  moreover have "map_option activeWorkspaceId (workspacesConfig ?st) = Some (Some (ws_id ?w))"
    by (simp add: defaultConfig_def)
  moreover have "getLinearClient ?st None = Inr (Some (LinearClient raw))"
    by (simp add: getLinearClient_def clientFor_def defaultConfig_def defaultWorkspaceId_def)
  moreover have "ws_id ?w = ''default''"
    by (simp add: defaultWorkspaceId_def)
  ultimately show ?thesis
    by (intro exI [of _ ?st] exI [of _ ?w]) simp
qed

theorem bare_credential_single_default_workspace_witness:
  "js_or (LINEAR_API_KEY (envOf ''lin_api_0123456789'')) (LINEARAPIKEY (envOf ''lin_api_0123456789''))
     = Some ''lin_api_0123456789''
   \<and> ''lin_api_0123456789'' \<noteq> []
   \<and> (\<lambda>s. None :: wsConfig option) ''lin_api_0123456789'' = None
   \<and> (\<exists>st. startup (\<lambda>s. None) (envOf ''lin_api_0123456789'') = Inr st
          \<and> map_option (map ws_id \<circ> workspaces) (workspacesConfig st) = Some [''default'']
          \<and> getLinearClient st None = Inr (Some (LinearClient ''lin_api_0123456789'')))"
proof -
  have a: "js_or (LINEAR_API_KEY (envOf ''lin_api_0123456789'')) (LINEARAPIKEY (envOf ''lin_api_0123456789''))
     = Some ''lin_api_0123456789''"
    by (simp add: js_or_def envOf_def truthy_def)
  have b: "''lin_api_0123456789'' \<noteq> []" by simp
  have c: "(\<lambda>s. None :: wsConfig option) ''lin_api_0123456789'' = None" by simp
  show ?thesis
    using bare_credential_single_default_workspace [OF a b c] a by auto
qed

subsection \<open>The workspace tool\<close>

text \<open>
  C7.  A call of \<open>list_workspaces\<close> with a non-empty \<open>workspace\<close> argument never raises.
  If the selector resolves to no workspace, the call returns a plain result without an
  error flag and leaves the state, and with it the active workspace, unchanged: the text
  names the selector and lists the names of the configured workspaces (or says that no
  workspaces are configured, when the list is empty).  If the selector resolves to a
  workspace, the call makes its id the active one and returns, as the text of one JSON
  object, under \<open>workspaces\<close> the id, name and email of every workspace in declaration
  order and under \<open>activeWorkspace\<close> the id, name and email of the selected one.
\<close>

theorem list_workspaces_selector:
  assumes "req_name r = ''list_workspaces''" and "req_arguments r = Some a"
    and "a ''workspace'' = Some sel" and "sel \<noteq> []"
  shows "(findWorkspace (workspacesConfig st) sel = None \<longrightarrow>
            callTool x st r =
              Some (Returned
                      \<lparr>content =
                         [Text (case workspacesConfig st of
                                  None \<Rightarrow> ''No workspaces are configured. Please set up workspaces in your configuration.''
                                | Some c \<Rightarrow>
                                    if workspaces c = []
                                    then ''No workspaces are configured. Please set up workspaces in your configuration.''
                                    else ''Workspace '' @ [CHR 0x27] @ sel @ [CHR 0x27]
                                         @ '' not found. Available workspaces: ''
                                         @ join '', '' (map ws_name (workspaces c)))],
                       isError = None\<rparr>,
                    st))
         \<and> (\<forall>c w. workspacesConfig st = Some c \<and> findWorkspace (Some c) sel = Some w \<longrightarrow>
              callTool x st r =
                Some (Returned
                        \<lparr>content =
                           [Stringify
                              (JObject
                                 [(''workspaces'',
                                   JArray (map (\<lambda>ws. JObject [(''id'', JString (ws_id ws)),
                                                               (''name'', JString (ws_name ws)),
                                                               (''email'', JString (ws_email ws))])
                                             (workspaces c))),
                                  (''activeWorkspace'',
                                   JObject [(''id'', JString (ws_id w)), (''name'', JString (ws_name w)),
                                            (''email'', JString (ws_email w))])]) 0],
                         isError = None\<rparr>,
                      st\<lparr>workspacesConfig := Some (c\<lparr>activeWorkspaceId := Some (ws_id w)\<rparr>)\<rparr>))"
proof (intro conjI impI allI)
  assume n: "findWorkspace (workspacesConfig st) sel = None"
  have "list_workspaces (workspacesConfig st) (Some a) =
          (textResult (Text (case workspacesConfig st of
                                  None \<Rightarrow> ''No workspaces are configured. Please set up workspaces in your configuration.''
                                | Some c \<Rightarrow>
                                    if workspaces c = []
                                    then ''No workspaces are configured. Please set up workspaces in your configuration.''
                                    else ''Workspace '' @ [CHR 0x27] @ sel @ [CHR 0x27]
                                         @ '' not found. Available workspaces: ''
                                         @ join '', '' (map ws_name (workspaces c)))),
           workspacesConfig st)"
    using n assms(3,4) by (simp add: list_workspaces_def split: option.splits)
  then show "callTool x st r =
              Some (Returned
                      \<lparr>content =
                         [Text (case workspacesConfig st of
                                  None \<Rightarrow> ''No workspaces are configured. Please set up workspaces in your configuration.''
                                | Some c \<Rightarrow>
                                    if workspaces c = []
                                    then ''No workspaces are configured. Please set up workspaces in your configuration.''
                                    else ''Workspace '' @ [CHR 0x27] @ sel @ [CHR 0x27]
                                         @ '' not found. Available workspaces: ''
                                         @ join '', '' (map ws_name (workspaces c)))],
                       isError = None\<rparr>,
                    st)"
    using assms(1,2) by (simp add: callTool_def dispatch_def textResult_def)
next
  fix c w
  assume h: "workspacesConfig st = Some c \<and> findWorkspace (Some c) sel = Some w"
  then have "w \<in> set (workspaces c)"
    using findWorkspace_member by blast
  then have "workspaces c \<noteq> []"
    by auto
  then have l: "list_workspaces (workspacesConfig st) (Some a) =
          (textResult (Stringify (JObject [(''workspaces'', JArray (map wsView (workspaces c))),
                                                (''activeWorkspace'', wsView w)]) 0),
           Some (c\<lparr>activeWorkspaceId := Some (ws_id w)\<rparr>))"
    using h assms(3,4) by (simp add: list_workspaces_def)
  have v: "wsView = (\<lambda>ws. JObject [(''id'', JString (ws_id ws)), (''name'', JString (ws_name ws)),
                                     (''email'', JString (ws_email ws))])"
    by (rule ext) (simp add: wsView_def)
  show "callTool x st r =
                Some (Returned
                        \<lparr>content =
                           [Stringify
                              (JObject
                                 [(''workspaces'',
                                   JArray (map (\<lambda>ws. JObject [(''id'', JString (ws_id ws)),
                                                               (''name'', JString (ws_name ws)),
                                                               (''email'', JString (ws_email ws))])
                                             (workspaces c))),
                                  (''activeWorkspace'',
                                   JObject [(''id'', JString (ws_id w)), (''name'', JString (ws_name w)),
                                            (''email'', JString (ws_email w))])]) 0],
                         isError = None\<rparr>,
                      st\<lparr>workspacesConfig := Some (c\<lparr>activeWorkspaceId := Some (ws_id w)\<rparr>)\<rparr>)"
    using assms(1,2) l unfolding v by (simp add: callTool_def dispatch_def textResult_def)
qed

theorem list_workspaces_selector_witness:
  "callTool extDown (started cfgAB)
      \<lparr>req_name = ''list_workspaces'', req_arguments = Some [''workspace'' \<mapsto> ''zzz'']\<rparr>
     = Some (Returned
              \<lparr>content = [Text (''Workspace '' @ [CHR 0x27] @ ''zzz'' @ [CHR 0x27]
                                 @ '' not found. Available workspaces: Alpha, Beta'')],
               isError = None\<rparr>,
             started cfgAB)
   \<and> callTool extDown (started cfgAB)
      \<lparr>req_name = ''list_workspaces'', req_arguments = Some [''workspace'' \<mapsto> ''alpha'']\<rparr>
     = Some (Returned
              \<lparr>content =
                 [Stringify
                    (JObject
                       [(''workspaces'',
                         JArray [JObject [(''id'', JString ''a''), (''name'', JString ''Alpha''),
                                          (''email'', JString [])],
                                 JObject [(''id'', JString ''b''), (''name'', JString ''Beta''),
                                          (''email'', JString [])]]),
                        (''activeWorkspace'',
                         JObject [(''id'', JString ''a''), (''name'', JString ''Alpha''),
                                  (''email'', JString [])])]) 0],
               isError = None\<rparr>,
             (started cfgAB)\<lparr>workspacesConfig := Some (cfgAB\<lparr>activeWorkspaceId := Some ''a''\<rparr>)\<rparr>)"
proof -
  let ?rz = "\<lparr>req_name = ''list_workspaces'', req_arguments = Some [''workspace'' \<mapsto> ''zzz'']\<rparr>"
  let ?ra = "\<lparr>req_name = ''list_workspaces'', req_arguments = Some [''workspace'' \<mapsto> ''alpha'']\<rparr>"
  have c: "workspacesConfig (started cfgAB) = Some cfgAB"
    by (simp add: started_def)
  have z: "findWorkspace (workspacesConfig (started cfgAB)) ''zzz'' = None"
    by (simp add: started_def cfgAB_def findWorkspace_def wsAlpha_def wsBeta_def toLowerCase_def
        lowerChar_def aliasHit_def)
  have b: "findWorkspace (Some cfgAB) ''alpha'' = Some wsAlpha"
    by (simp add: cfgAB_def findWorkspace_def wsAlpha_def wsBeta_def toLowerCase_def lowerChar_def)
  have 1: "callTool extDown (started cfgAB) ?rz
     = Some (Returned
              \<lparr>content = [Text (''Workspace '' @ [CHR 0x27] @ ''zzz'' @ [CHR 0x27]
                                 @ '' not found. Available workspaces: Alpha, Beta'')],
               isError = None\<rparr>,
             started cfgAB)"
    using list_workspaces_selector [of ?rz "[''workspace'' \<mapsto> ''zzz'']" "''zzz''" "started cfgAB" extDown] z
    by (simp add: c) (simp add: cfgAB_def wsAlpha_def wsBeta_def)
  have 2: "callTool extDown (started cfgAB) ?ra
     = Some (Returned
              \<lparr>content =
                 [Stringify
                    (JObject
                       [(''workspaces'',
                         JArray [JObject [(''id'', JString ''a''), (''name'', JString ''Alpha''),
                                          (''email'', JString [])],
                                 JObject [(''id'', JString ''b''), (''name'', JString ''Beta''),
                                          (''email'', JString [])]]),
                        (''activeWorkspace'',
                         JObject [(''id'', JString ''a''), (''name'', JString ''Alpha''),
                                  (''email'', JString [])])]) 0],
               isError = None\<rparr>,
             (started cfgAB)\<lparr>workspacesConfig := Some (cfgAB\<lparr>activeWorkspaceId := Some ''a''\<rparr>)\<rparr>)"
    using list_workspaces_selector [of ?ra "[''workspace'' \<mapsto> ''alpha'']" "''alpha''" "started cfgAB" extDown] b c
    by (simp add: cfgAB_def wsAlpha_def wsBeta_def)
  from 1 2 show ?thesis by simp
qed

subsection \<open>The page loop\<close>

lemma pageLoop_follows:
  "follows fetch c ps \<Longrightarrow>
     pageLoop fetch acc True c = Some (Inr (acc @ concat (map (\<lambda>p. map wfView (nodes p)) ps)))"
proof (induction fetch c ps arbitrary: acc rule: follows.induct)
  case (1 fetch c)
  then show ?case by simp
next
  case (2 fetch c p)
  then show ?case
    by (simp add: pageLoop.simps)
next
  case (3 fetch c p q ps)
  then have "pageLoop fetch (acc @ map wfView (nodes p)) True (endCursor p)
               = Some (Inr ((acc @ map wfView (nodes p)) @ concat (map (\<lambda>p. map wfView (nodes p)) (q # ps))))"
    by simp
  moreover have "pageLoop fetch acc True c = pageLoop fetch (acc @ map wfView (nodes p)) True (endCursor p)"
    using "3.prems" by (subst pageLoop.simps) simp
  ultimately show ?case
    by simp
qed

lemma wfJson_wfView:
  "wfJson (wfView n) =
     JObject ([(''id'', JString (wf_id n)), (''name'', JString (wf_name n))]
              @ (case wf_description n of None \<Rightarrow> [] | Some d \<Rightarrow> [(''description'', JString d)])
              @ [(''position'', JNumber (wf_position n)), (''type'', JString (wf_type n))])"
  by (simp add: wfJson_def wfView_def)

text \<open>
  C9.  Let \<open>get_issue_status\<close> be called with a team id and a resolved client, and let
  upstream, asked first without a cursor and then each time with the cursor returned by
  the previous page, answer with the pages \<open>ps\<close>, the last of which is the first to
  report no further page.  Then the call returns, whatever the number of pages, and its
  result is the text of a JSON array with one object for every node of every page, in
  page order and in the order of the nodes within each page; the object of a node holds
  the node's id, name, description (left out when the node has none), position and type.
\<close>

theorem get_issue_status_all_pages:
  assumes "req_name r = ''get_issue_status''" and "req_arguments r = Some a"
    and "getLinearClient st (a ''workspaceId'') = Inr (Some c)"
    and "a ''teamId'' = Some teamId" and "teamId \<noteq> []"
    and "follows (\<lambda>after. ext_workflowStates x c teamId after 100) None ps"
  shows "callTool x st r =
           Some (Returned
                   \<lparr>content =
                      [Stringify
                         (JArray
                            (map (\<lambda>n. JObject
                                    ([(''id'', JString (wf_id n)), (''name'', JString (wf_name n))]
                                     @ (case wf_description n of
                                          None \<Rightarrow> []
                                        | Some d \<Rightarrow> [(''description'', JString d)])
                                     @ [(''position'', JNumber (wf_position n)),
                                        (''type'', JString (wf_type n))]))
                               (concat (map nodes ps)))) 2],
                    isError = None\<rparr>,
                 st)"
proof -
  have "pageLoop (\<lambda>after. ext_workflowStates x c teamId after 100) [] True None
          = Some (Inr ([] @ concat (map (\<lambda>p. map wfView (nodes p)) ps)))"
    using assms(6) by (rule pageLoop_follows)
  then have g: "get_issue_status x st (Some a) =
               Some (Inr (textResult
                  (Stringify (JArray (map wfJson (concat (map (\<lambda>p. map wfView (nodes p)) ps)))) 2)))"
    using assms(3,4,5) by (simp add: get_issue_status_def)
  have "concat (map (\<lambda>p. map wfView (nodes p)) ps) = map wfView (concat (map nodes ps))"
    by (simp add: map_concat comp_def)
  then have "map wfJson (concat (map (\<lambda>p. map wfView (nodes p)) ps))
               = map (\<lambda>n. wfJson (wfView n)) (concat (map nodes ps))"
    by (simp add: comp_def)
  with g have "get_issue_status x st (Some a) =
               Some (Inr (textResult
                  (Stringify (JArray (map (\<lambda>n. wfJson (wfView n)) (concat (map nodes ps)))) 2)))"
    by simp
  then show ?thesis
    using assms(1,2) by (simp add: callTool_def dispatch_def textResult_def wfJson_wfView)
qed

theorem get_issue_status_all_pages_witness:
  "getLinearClient (started cfgAB) ([''teamId'' \<mapsto> ''team-1''] ''workspaceId'')
     = Inr (Some (LinearClient ''key-b''))
   \<and> follows (\<lambda>after. ext_workflowStates extTwoPages (LinearClient ''key-b'') ''team-1'' after 100) None
        [pageOne, pageTwo]
   \<and> callTool extTwoPages (started cfgAB)
        \<lparr>req_name = ''get_issue_status'', req_arguments = Some [''teamId'' \<mapsto> ''team-1'']\<rparr>
      = Some (Returned
                \<lparr>content =
                   [Stringify
                      (JArray
                         [JObject [(''id'', JString ''s1''), (''name'', JString ''Todo''),
                                   (''position'', JNumber 0), (''type'', JString ''unstarted'')],
                          JObject [(''id'', JString ''s2''), (''name'', JString ''In Progress''),
                                   (''description'', JString ''being worked on''),
                                   (''position'', JNumber 1), (''type'', JString ''started'')],
                          JObject [(''id'', JString ''s3''), (''name'', JString ''Done''),
                                   (''position'', JNumber 2), (''type'', JString ''completed'')]]) 2],
                 isError = None\<rparr>,
              started cfgAB)"
proof -
  let ?a = "[''teamId'' \<mapsto> ''team-1'']"
  let ?r = "\<lparr>req_name = ''get_issue_status'', req_arguments = Some ?a\<rparr>"
  have g: "getLinearClient (started cfgAB) (?a ''workspaceId'') = Inr (Some (LinearClient ''key-b''))"
    by (simp add: resolve_AB)
  have f: "follows (\<lambda>after. ext_workflowStates extTwoPages (LinearClient ''key-b'') ''team-1'' after 100) None
        [pageOne, pageTwo]"
    by (simp add: extTwoPages_def pageOne_def pageTwo_def)
  have n: "concat (map nodes [pageOne, pageTwo]) = [nodeTodo, nodeDoing, nodeDone]"
    by (simp add: pageOne_def pageTwo_def)
  have "callTool extTwoPages (started cfgAB) ?r
      = Some (Returned
                   \<lparr>content =
                      [Stringify
                         (JArray
                            (map (\<lambda>n. JObject
                                    ([(''id'', JString (wf_id n)), (''name'', JString (wf_name n))]
                                     @ (case wf_description n of
                                          None \<Rightarrow> []
                                        | Some d \<Rightarrow> [(''description'', JString d)])
                                     @ [(''position'', JNumber (wf_position n)),
                                        (''type'', JString (wf_type n))]))
                               (concat (map nodes [pageOne, pageTwo])))) 2],
                    isError = None\<rparr>,
                 started cfgAB)"
    using get_issue_status_all_pages [of ?r ?a "started cfgAB" "LinearClient ''key-b''" "''team-1''"
        extTwoPages "[pageOne, pageTwo]"] g f
    by simp
  then show ?thesis
    using g f unfolding n by (simp add: nodeTodo_def nodeDoing_def nodeDone_def)
qed

subsection \<open>Credentials and the workspace tool\<close>

lemma find_map_comp: "find P (map f xs) = map_option f (find (\<lambda>v. P (f v)) xs)"
  by (induction xs) auto

lemma aliasHit_redact: "aliasHit s (w\<lparr>ws_apiKey := []\<rparr>) = aliasHit s w"
  by (simp add: aliasHit_def)

lemma findWorkspace_redact:
  "findWorkspace (Some (redact cfg)) sel
     = map_option (\<lambda>w. w\<lparr>ws_apiKey := []\<rparr>) (findWorkspace (Some cfg) sel)"
  by (simp add: findWorkspace_def redact_def Let_def find_map_comp aliasHit_redact
      split: option.splits)

lemma wsView_redact: "wsView (w\<lparr>ws_apiKey := []\<rparr>) = wsView w"
  by (simp add: wsView_def)

lemma list_workspaces_redact:
  "list_workspaces (map_option redact cfg) a
     = (fst (list_workspaces cfg a), map_option redact (snd (list_workspaces cfg a)))"
proof (cases cfg)
  case None
  then show ?thesis
    by (simp add: list_workspaces_def)
next
  case (Some c)
  have v: "map (wsView \<circ> (\<lambda>w. w\<lparr>ws_apiKey := []\<rparr>)) (workspaces c) = map wsView (workspaces c)"
    by (simp add: wsView_redact)
  have n: "map (ws_name \<circ> (\<lambda>w. w\<lparr>ws_apiKey := []\<rparr>)) (workspaces c) = map ws_name (workspaces c)"
    by simp
  have w: "workspaces (redact c) = map (\<lambda>w. w\<lparr>ws_apiKey := []\<rparr>) (workspaces c)"
    "activeWorkspaceId (redact c) = activeWorkspaceId c"
    by (simp_all add: redact_def)
  have r: "redact (c\<lparr>activeWorkspaceId := i\<rparr>) = (redact c)\<lparr>activeWorkspaceId := i\<rparr>" for i
    by (simp add: redact_def)
  show ?thesis
    unfolding Some list_workspaces_def option.map findWorkspace_redact
    by (simp add: w v n r find_map_comp wsView_redact split: option.splits)
qed

text \<open>
  C10.  The answer of \<open>list_workspaces\<close> does not depend on any credential: two states
  whose configurations agree once every \<open>apiKey\<close> is blanked (the client pools may
  differ as well) give the same result for the same call, with or without a selector,
  and the configurations after the call agree in the same way, so that this holds for
  every later call too.
\<close>

theorem list_workspaces_hides_credentials:
  assumes "req_name r = ''list_workspaces''"
    and "map_option redact (workspacesConfig st1) = map_option redact (workspacesConfig st2)"
  shows "map_option fst (callTool x st1 r) = map_option fst (callTool x st2 r)
         \<and> map_option (map_option redact \<circ> workspacesConfig \<circ> snd) (callTool x st1 r)
             = map_option (map_option redact \<circ> workspacesConfig \<circ> snd) (callTool x st2 r)"
proof -
  have c: "callTool x st r =
             Some (Returned (fst (list_workspaces (workspacesConfig st) (req_arguments r))),
                   st\<lparr>workspacesConfig := snd (list_workspaces (workspacesConfig st) (req_arguments r))\<rparr>)"
    for st
    using assms(1) by (simp add: callTool_def dispatch_def split: prod.splits)
  have "list_workspaces (map_option redact (workspacesConfig st1)) (req_arguments r)
          = list_workspaces (map_option redact (workspacesConfig st2)) (req_arguments r)"
    using assms(2) by simp
  then have "fst (list_workspaces (workspacesConfig st1) (req_arguments r))
               = fst (list_workspaces (workspacesConfig st2) (req_arguments r))
             \<and> map_option redact (snd (list_workspaces (workspacesConfig st1) (req_arguments r)))
               = map_option redact (snd (list_workspaces (workspacesConfig st2) (req_arguments r)))"
    by (simp add: list_workspaces_redact)
  then show ?thesis
    by (simp add: c)
qed

theorem list_workspaces_hides_credentials_witness:
  "map_option redact (workspacesConfig (started cfgAB))
     = map_option redact (workspacesConfig (started (cfgAB\<lparr>workspaces := [wsAlpha\<lparr>ws_apiKey := ''other-a''\<rparr>, wsBeta\<lparr>ws_apiKey := ''other-b''\<rparr>]\<rparr>)))
   \<and> map_option fst (callTool extDown (started cfgAB)
        \<lparr>req_name = ''list_workspaces'', req_arguments = Some [''workspace'' \<mapsto> ''Alpha'']\<rparr>)
     = map_option fst (callTool extDown (started (cfgAB\<lparr>workspaces := [wsAlpha\<lparr>ws_apiKey := ''other-a''\<rparr>, wsBeta\<lparr>ws_apiKey := ''other-b''\<rparr>]\<rparr>))
        \<lparr>req_name = ''list_workspaces'', req_arguments = Some [''workspace'' \<mapsto> ''Alpha'']\<rparr>)
   \<and> map_option fst (callTool extDown (started cfgAB) \<lparr>req_name = ''list_workspaces'', req_arguments = None\<rparr>)
     = Some (Returned
               \<lparr>content =
                  [Stringify
                     (JObject
                        [(''workspaces'',
                          JArray [JObject [(''id'', JString ''a''), (''name'', JString ''Alpha''),
                                           (''email'', JString [])],
                                  JObject [(''id'', JString ''b''), (''name'', JString ''Beta''),
                                           (''email'', JString [])]]),
                         (''activeWorkspace'',
                          JObject [(''id'', JString ''b''), (''name'', JString ''Beta''),
                                   (''email'', JString [])])]) 0],
                isError = None\<rparr>)"
proof -
  let ?c2 = "cfgAB\<lparr>workspaces := [wsAlpha\<lparr>ws_apiKey := ''other-a''\<rparr>, wsBeta\<lparr>ws_apiKey := ''other-b''\<rparr>]\<rparr>"
  let ?r = "\<lparr>req_name = ''list_workspaces'', req_arguments = Some [''workspace'' \<mapsto> ''Alpha'']\<rparr>"
  have e: "map_option redact (workspacesConfig (started cfgAB))
     = map_option redact (workspacesConfig (started ?c2))"
    by (simp add: started_def redact_def cfgAB_def)
  have n: "req_name ?r = ''list_workspaces''"
    by simp
  have 1: "map_option fst (callTool extDown (started cfgAB) ?r)
             = map_option fst (callTool extDown (started ?c2) ?r)"
    using list_workspaces_hides_credentials [OF n e, of extDown] by simp
  have 2: "map_option fst (callTool extDown (started cfgAB) \<lparr>req_name = ''list_workspaces'', req_arguments = None\<rparr>)
     = Some (Returned
               \<lparr>content =
                  [Stringify
                     (JObject
                        [(''workspaces'',
                          JArray [JObject [(''id'', JString ''a''), (''name'', JString ''Alpha''),
                                           (''email'', JString [])],
                                  JObject [(''id'', JString ''b''), (''name'', JString ''Beta''),
                                           (''email'', JString [])]]),
                         (''activeWorkspace'',
                          JObject [(''id'', JString ''b''), (''name'', JString ''Beta''),
                                   (''email'', JString [])])]) 0],
                isError = None\<rparr>)"
    by (simp add: callTool_def dispatch_def list_workspaces_def started_def cfgAB_def textResult_def
        wsAlpha_def wsBeta_def wsView_def)
  from e 1 2 show ?thesis by simp
qed

subsection \<open>Faults and results\<close>

lemma dispatch_returns:
  "req_name r \<noteq> ''get_issue_status'' \<Longrightarrow> \<exists>res st'. dispatch x st r = Some (res, st')"
  by (simp add: dispatch_def Let_def split: prod.splits)

text \<open>
  C2, on the code.  The handler never raises, and every call other than
  \<open>get_issue_status\<close> (whose page loop may run forever) returns a result: routing
  errors, missing arguments and upstream errors all end in the \<open>catch\<close> of lines
  1007--1017.  So does the \<open>McpError\<close> with code \<open>MethodNotFound\<close> that the \<open>default\<close>
  branch throws for an unknown tool name: it is thrown inside the \<open>try\<close> block, and the
  call is answered with a plain result whose text is \<open>Error: \<close> followed by the message
  of that error; the state is unchanged.
\<close>

theorem unknown_tool_is_caught:
  "(\<forall>e st'. callTool x st r \<noteq> Some (Raised e, st'))
   \<and> (req_name r \<noteq> ''get_issue_status'' \<longrightarrow> (\<exists>res st'. callTool x st r = Some (Returned res, st')))
   \<and> (req_name r \<notin> set toolNames \<longrightarrow>
        callTool x st r =
          Some (Returned
                  \<lparr>content =
                     [Text (''Error: '' @ ext_mcpMessage x MethodNotFound (''Method '' @ req_name r @ '' not found''))],
                   isError = None\<rparr>,
                st))"
proof (intro conjI allI impI)
  fix e st'
  show "callTool x st r \<noteq> Some (Raised e, st')"
    by (auto simp: callTool_def split: sum.splits)
next
  assume "req_name r \<noteq> ''get_issue_status''"
  then obtain res st' where "dispatch x st r = Some (res, st')"
    using dispatch_returns by blast
  then show "\<exists>res st'. callTool x st r = Some (Returned res, st')"
    by (cases res) (simp_all add: callTool_def)
next
  assume "req_name r \<notin> set toolNames"
  then show "callTool x st r =
          Some (Returned
                  \<lparr>content =
                     [Text (''Error: '' @ ext_mcpMessage x MethodNotFound (''Method '' @ req_name r @ '' not found''))],
                   isError = None\<rparr>,
                st)"
    by (simp add: toolNames_def callTool_def dispatch_def Let_def message_def textResult_def)
qed

theorem unknown_tool_is_caught_witness:
  "''no_such_tool'' \<notin> set toolNames
   \<and> callTool extDown (started cfgAB) \<lparr>req_name = ''no_such_tool'', req_arguments = Some Map.empty\<rparr>
     = Some (Returned \<lparr>content = [Text ''Error: MCP error -32601: Method no_such_tool not found''],
                       isError = None\<rparr>,
             started cfgAB)
   \<and> callTool extDown (started cfgAB) \<lparr>req_name = ''create_issue'', req_arguments = Some [''title'' \<mapsto> ''t'']\<rparr>
     = Some (Returned \<lparr>content = [Text ''Error: Title and teamId are required''], isError = None\<rparr>,
             started cfgAB)
   \<and> callTool extDown (started cfgAB) \<lparr>req_name = ''list_teams'', req_arguments = Some Map.empty\<rparr>
     = Some (Returned \<lparr>content = [Text ''Error: upstream unavailable''], isError = None\<rparr>,
             started cfgAB)
   \<and> callTool extDown \<lparr>workspacesConfig = None, linearClients = Map.empty\<rparr>
        \<lparr>req_name = ''list_teams'', req_arguments = Some Map.empty\<rparr>
     = Some (Returned \<lparr>content = [Text ''Error: No Linear client available. Please check your configuration.''],
                       isError = None\<rparr>,
             \<lparr>workspacesConfig = None, linearClients = Map.empty\<rparr>)"
proof -
  have n: "''no_such_tool'' \<notin> set toolNames"
    by (simp add: toolNames_def)
  then have 1: "callTool extDown (started cfgAB) \<lparr>req_name = ''no_such_tool'', req_arguments = Some Map.empty\<rparr>
     = Some (Returned \<lparr>content = [Text ''Error: MCP error -32601: Method no_such_tool not found''],
                       isError = None\<rparr>,
             started cfgAB)"
    using unknown_tool_is_caught
      [of extDown "started cfgAB" "\<lparr>req_name = ''no_such_tool'', req_arguments = Some Map.empty\<rparr>"]
    by (simp add: extDown_def)
  have 2: "callTool extDown (started cfgAB) \<lparr>req_name = ''create_issue'', req_arguments = Some [''title'' \<mapsto> ''t'']\<rparr>
     = Some (Returned \<lparr>content = [Text ''Error: Title and teamId are required''], isError = None\<rparr>,
             started cfgAB)"
    by (simp add: callTool_def dispatch_def checkedHandler_def resolve_AB truthy_def message_def textResult_def)
  have 3: "callTool extDown (started cfgAB) \<lparr>req_name = ''list_teams'', req_arguments = Some Map.empty\<rparr>
     = Some (Returned \<lparr>content = [Text ''Error: upstream unavailable''], isError = None\<rparr>,
             started cfgAB)"
    by (simp add: callTool_def dispatch_def plainHandler_def resolve_AB onClient_def message_def
        textResult_def extDown_def)
  have 4: "callTool extDown \<lparr>workspacesConfig = None, linearClients = Map.empty\<rparr>
        \<lparr>req_name = ''list_teams'', req_arguments = Some Map.empty\<rparr>
     = Some (Returned \<lparr>content = [Text ''Error: No Linear client available. Please check your configuration.''],
                       isError = None\<rparr>,
             \<lparr>workspacesConfig = None, linearClients = Map.empty\<rparr>)"
    by (simp add: callTool_def dispatch_def plainHandler_def getLinearClient_def clientFor_def message_def
        textResult_def)
  from n 1 2 3 4 show ?thesis by simp
qed

end
